theory Spec2Isabelle
  imports Main "HOL-Library.Char_ord" "HOL-Library.List_Lexorder" "HOL-Library.Multiset"
    "HOL-Library.Sublist"
begin

section \<open>Google Tools: a shallow embedding of \<^verbatim>\<open>google_tools.py\<close>\<close>

text \<open>
  The embedding follows \<^verbatim>\<open>src/.history/google_tools_20250528105907.py\<close>.
  Python exceptions are values of the type \<open>exn\<close>; a computation with effects is a
  function from the world before it to its outcome (\<open>Inl\<close> an exception raised,
  \<open>Inr\<close> a value returned) and the world after it. Python strings are \<open>string\<close>s
  holding the UTF-8 bytes of the text, so that the order on strings is Python's
  code-point order.
\<close>

subsection \<open>Exceptions\<close>

text \<open>
  Only classes below Python's \<open>Exception\<close> are modelled. \<open>binascii.Error\<close> and
  \<open>UnicodeError\<close> are subclasses of \<open>ValueError\<close> and are represented by it;
  \<open>OtherException\<close> stands for any other class (a vendor's \<open>RefreshError\<close>, ...).
  The argument is the text \<open>str(error)\<close> gives, except for \<open>KeyError\<close>, whose
  argument is the missing key. The texts of the exceptions that Python itself raises are
  given without their quotation marks.
\<close>

datatype exn =
    ValueError string
  | KeyError string
  | TypeError string
  | AttributeError string
  | IndexError string
  | FileNotFoundError string
  | HttpError string
  | OtherException string

fun str_exn :: "exn \<Rightarrow> string" where
  "str_exn (ValueError m) = m"
| "str_exn (KeyError k) = [CHR 0x27] @ k @ [CHR 0x27]"
| "str_exn (TypeError m) = m"
| "str_exn (AttributeError m) = m"
| "str_exn (IndexError m) = m"
| "str_exn (FileNotFoundError m) = m"
| "str_exn (HttpError m) = m"
| "str_exn (OtherException m) = m"

fun is_HttpError :: "exn \<Rightarrow> bool" where
  "is_HttpError (HttpError m) = True"
| "is_HttpError e = False"

fun and_then :: "exn + 'a \<Rightarrow> ('a \<Rightarrow> exn + 'b) \<Rightarrow> exn + 'b" where
  "and_then (Inl e) f = Inl e"
| "and_then (Inr x) f = f x"

subsection \<open>Python values\<close>

text \<open>
  The Gmail client hands the code parsed JSON: \<^verbatim>\<open>None\<close>, booleans, integers, strings,
  lists and dictionaries with string keys (an association list holding each key once).
  Fractional numbers do not occur in what the code reads and are not modelled.
\<close>

datatype pyval =
    PyNone
  | PyBool bool
  | PyInt int
  | PyStr string
  | PyList "pyval list"
  | PyDict "(string \<times> pyval) list"

fun type_name :: "pyval \<Rightarrow> string" where
  "type_name PyNone = ''NoneType''"
| "type_name (PyBool b) = ''bool''"
| "type_name (PyInt i) = ''int''"
| "type_name (PyStr s) = ''str''"
| "type_name (PyList xs) = ''list''"
| "type_name (PyDict kvs) = ''dict''"

text \<open>\<^verbatim>\<open>obj[key]\<close> for a string key.\<close>

fun subscript :: "pyval \<Rightarrow> string \<Rightarrow> exn + pyval" where
  "subscript (PyDict kvs) key =
     (case map_of kvs key of None \<Rightarrow> Inl (KeyError key) | Some v \<Rightarrow> Inr v)"
| "subscript (PyStr s) key = Inl (TypeError ''string indices must be integers'')"
| "subscript (PyList xs) key = Inl (TypeError ''list indices must be integers or slices, not str'')"
| "subscript v key = Inl (TypeError (type_name v @ '' object is not subscriptable''))"

text \<open>\<^verbatim>\<open>obj.get(key, default)\<close>: a method of dictionaries only.\<close>

fun dict_get :: "pyval \<Rightarrow> string \<Rightarrow> pyval \<Rightarrow> exn + pyval" where
  "dict_get (PyDict kvs) key dflt =
     (case map_of kvs key of None \<Rightarrow> Inr dflt | Some v \<Rightarrow> Inr v)"
| "dict_get v key dflt = Inl (AttributeError (type_name v @ '' object has no attribute get''))"

text \<open>
  The items a \<^verbatim>\<open>for\<close> loop visits. A string yields its characters as strings (one
  per byte here, one per code point in Python: every item is a string in both).
\<close>

fun py_iter :: "pyval \<Rightarrow> exn + pyval list" where
  "py_iter (PyList xs) = Inr xs"
| "py_iter (PyDict kvs) = Inr (map (\<lambda>kv. PyStr (fst kv)) kvs)"
| "py_iter (PyStr s) = Inr (map (\<lambda>c. PyStr [c]) s)"
| "py_iter v = Inl (TypeError (type_name v @ '' object is not iterable''))"

fun truthy :: "pyval \<Rightarrow> bool" where
  "truthy PyNone = False"
| "truthy (PyBool b) = b"
| "truthy (PyInt i) = (i \<noteq> 0)"
| "truthy (PyStr s) = (s \<noteq> [])"
| "truthy (PyList xs) = (xs \<noteq> [])"
| "truthy (PyDict kvs) = (kvs \<noteq> [])"

text \<open>\<^verbatim>\<open>s in obj\<close> for a string \<open>s\<close>.\<close>

fun contains_str :: "string \<Rightarrow> pyval \<Rightarrow> exn + bool" where
  "contains_str s (PyList xs) = Inr (PyStr s \<in> set xs)"
| "contains_str s (PyDict kvs) = Inr (s \<in> set (map fst kvs))"
| "contains_str s (PyStr t) = Inr (sublist s t)"
| "contains_str s v = Inl (TypeError (''argument of type '' @ type_name v @ '' is not iterable''))"

fun str_nat :: "nat \<Rightarrow> string" where
  "str_nat n =
     (if n < 10 then [char_of (48 + n)] else str_nat (n div 10) @ [char_of (48 + n mod 10)])"

definition str_int :: "int \<Rightarrow> string" where
  "str_int i = (if i < 0 then ''-'' @ str_nat (nat (- i)) else str_nat (nat i))"

text \<open>\<^verbatim>\<open>html.escape(s)\<close> with its default \<^verbatim>\<open>quote=True\<close>.\<close>

definition escape_char :: "char \<Rightarrow> string" where
  "escape_char c =
     (if c = CHR ''&'' then ''&amp;''
      else if c = CHR ''<'' then ''&lt;''
      else if c = CHR ''>'' then ''&gt;''
      else if c = CHR 0x22 then ''&quot;''
      else if c = CHR 0x27 then ''&#x27;''
      else [c])"

definition html_escape :: "string \<Rightarrow> string" where
  "html_escape s = concat (map escape_char s)"

text \<open>
  The functions of Python's standard library whose code is not in the repository are
  parameters: \<open>b64decode\<close> is \<^verbatim>\<open>base64.b64decode\<close> on a string,
  \<open>utf8_decode_replace\<close> is \<^verbatim>\<open>bytes.decode("utf-8", errors="replace")\<close>,
  \<open>py_repr\<close> is what \<^verbatim>\<open>str\<close> gives for a list or a dictionary,
  \<open>message_as_bytes body to subject\<close> is \<^verbatim>\<open>as_bytes()\<close> of the
  \<^verbatim>\<open>EmailMessage\<close> given that content and those two headers (building it may raise),
  and \<open>urlsafe_b64encode\<close> is \<^verbatim>\<open>base64.urlsafe_b64encode(...).decode()\<close>.
\<close>

record stdlib =
  b64decode :: "string \<Rightarrow> exn + string"
  utf8_decode_replace :: "string \<Rightarrow> string"
  py_repr :: "pyval \<Rightarrow> string"
  message_as_bytes :: "string \<Rightarrow> string \<Rightarrow> string \<Rightarrow> exn + string"
  urlsafe_b64encode :: "string \<Rightarrow> string"

text \<open>\<^verbatim>\<open>str(v)\<close>, as \<^verbatim>\<open>str.format\<close> and f-strings render a value.\<close>

fun py_str :: "stdlib \<Rightarrow> pyval \<Rightarrow> string" where
  "py_str sl PyNone = ''None''"
| "py_str sl (PyBool b) = (if b then ''True'' else ''False'')"
| "py_str sl (PyInt i) = str_int i"
| "py_str sl (PyStr s) = s"
| "py_str sl v = py_repr sl v"

subsection \<open>Credentials, the vendor library and the world\<close>

text \<open>
  Of a vendor \<open>Credentials\<close> object the code reads \<open>valid\<close>, \<open>expired\<close> and
  \<open>refresh_token\<close> and calls \<open>to_json()\<close>.
\<close>

record creds =
  valid :: bool
  expired :: bool
  refresh_token :: "string option"
  to_json :: string

datatype flow = Flow string

record status =
  status_description :: string
  status_done :: bool

datatype level = DEBUG | INFO | ERROR

record valves =
  default_calendar_entries :: int
  default_email_entries :: int
  path_to_credentials :: string

definition default_valves :: valves where
  "default_valves =
     \<lparr>default_calendar_entries = 10, default_email_entries = 10,
      path_to_credentials = ''credentials.json''\<rparr>"

text \<open>
  Of the Calendar API's resources the code reads the fields below; a key that the
  resource does not have is \<open>None\<close>.
\<close>

record event_time =
  dateTime :: "string option"
  date :: "string option"

record organizer =
  displayName :: "string option"
  email :: "string option"

record event_resource =
  event_start :: "event_time option"
  event_summary :: "string option"
  event_organizer :: "organizer option"

record events_result =
  event_items :: "event_resource list option"

record calendar_resource =
  calendar_id :: "string option"

record calendar_list =
  calendar_items :: "calendar_resource list option"

text \<open>
  Every call that leaves the process (a token refresh, the consent flow, a request to
  Gmail or Calendar, a reading of the clock) is recorded in the world, in order.
\<close>

datatype call =
    RefreshCall creds
  | RunLocalServer flow
  | UtcNow
  | Build string string "creds option"
  | MessagesList int string
  | MessagesGet pyval
  | DraftsCreate string
  | CalendarListList
  | EventsList string int string

record world =
  files :: "string \<rightharpoonup> string"
  calls :: "call list"
  log :: "(level \<times> string) list"
  emitted :: "status list"

text \<open>
  The vendor library is not part of the repository: its functions are parameters of the
  model. A function that talks to the network, to the user or to the clock is given the
  calls made so far, so that it may answer the same request differently at different
  times. \<open>build\<close> answers with the exception it raises, if any.
\<close>

record vendor =
  from_authorized_user_info :: "string \<Rightarrow> exn + creds"
  refresh :: "call list \<Rightarrow> creds \<Rightarrow> exn + creds"
  from_client_config :: "string \<Rightarrow> exn + flow"
  run_local_server :: "call list \<Rightarrow> flow \<Rightarrow> exn + creds"
  utcnow_isoformat :: "call list \<Rightarrow> string"
  build :: "call list \<Rightarrow> string \<Rightarrow> string \<Rightarrow> creds option \<Rightarrow> exn option"
  messages_list :: "call list \<Rightarrow> int \<Rightarrow> string \<Rightarrow> exn + pyval"
  messages_get :: "call list \<Rightarrow> pyval \<Rightarrow> exn + pyval"
  drafts_create :: "call list \<Rightarrow> string \<Rightarrow> exn + pyval"
  calendarList_list :: "call list \<Rightarrow> exn + calendar_list"
  events_list :: "call list \<Rightarrow> string \<Rightarrow> int \<Rightarrow> string \<Rightarrow> exn + events_result"

type_synonym 'a io = "world \<Rightarrow> (exn + 'a) \<times> world"

definition io_bind :: "'a io \<Rightarrow> ('a \<Rightarrow> 'b io) \<Rightarrow> 'b io" where
  "io_bind m f w = (case m w of (Inl e, w') \<Rightarrow> (Inl e, w') | (Inr x, w') \<Rightarrow> f x w')"

definition io_lift :: "exn + 'a \<Rightarrow> 'a io" where
  "io_lift r w = (r, w)"

definition logger :: "level \<Rightarrow> string \<Rightarrow> world \<Rightarrow> world" where
  "logger l m w = w\<lparr>log := log w @ [(l, m)]\<rparr>"

definition called :: "call \<Rightarrow> world \<Rightarrow> world" where
  "called c w = w\<lparr>calls := calls w @ [c]\<rparr>"

text \<open>\<^verbatim>\<open>os.remove(path)\<close>: the file must exist.\<close>

definition os_remove :: "string \<Rightarrow> world \<Rightarrow> (exn + unit) \<times> world" where
  "os_remove path w =
     (case files w path of
        None \<Rightarrow> (Inl (FileNotFoundError path), w)
      | Some _ \<Rightarrow> (Inr (), w\<lparr>files := (files w)(path := None)\<rparr>))"

text \<open>\<^verbatim>\<open>with open(path, "w") as f: f.write(data)\<close>, in a writable directory.\<close>

definition write_file :: "string \<Rightarrow> string \<Rightarrow> world \<Rightarrow> world" where
  "write_file path data w = w\<lparr>files := (files w)(path \<mapsto> data)\<rparr>"

text \<open>
  \<^verbatim>\<open>Credentials.from_authorized_user_file\<close> and
  \<^verbatim>\<open>InstalledAppFlow.from_client_secrets_file\<close> open the file and hand its content
  to the vendor's parser.
\<close>

definition from_authorized_user_file :: "vendor \<Rightarrow> string \<Rightarrow> world \<Rightarrow> exn + creds" where
  "from_authorized_user_file vd path w =
     (case files w path of
        None \<Rightarrow> Inl (FileNotFoundError path)
      | Some content \<Rightarrow> from_authorized_user_info vd content)"

definition from_client_secrets_file :: "vendor \<Rightarrow> string \<Rightarrow> world \<Rightarrow> exn + flow" where
  "from_client_secrets_file vd path w =
     (case files w path of
        None \<Rightarrow> Inl (FileNotFoundError path)
      | Some content \<Rightarrow> from_client_config vd content)"

subsection \<open>The credential manager\<close>

definition truthy_str :: "string option \<Rightarrow> bool" where
  "truthy_str s = (case s of None \<Rightarrow> False | Some t \<Rightarrow> t \<noteq> [])"

text \<open>
  The interactive consent flow (\<^verbatim>\<open>from_client_secrets_file\<close>, then
  \<^verbatim>\<open>run_local_server\<close>) and the refresh of expired credentials.
\<close>

definition consent_flow :: "vendor \<Rightarrow> valves \<Rightarrow> world \<Rightarrow> (exn + creds) \<times> world" where
  "consent_flow vd vs w =
     (case from_client_secrets_file vd (path_to_credentials vs) w of
        Inl e \<Rightarrow> (Inl e, w)
      | Inr fl \<Rightarrow> (run_local_server vd (calls w) fl, called (RunLocalServer fl) w))"

definition refresh_creds :: "vendor \<Rightarrow> creds \<Rightarrow> world \<Rightarrow> (exn + creds) \<times> world" where
  "refresh_creds vd c w = (refresh vd (calls w) c, called (RefreshCall c) w)"

text \<open>
  The block under \<^verbatim>\<open>if not creds or not creds.valid\<close>. A refresh changes the
  credentials object in place; when it raises, \<^verbatim>\<open>creds\<close> is the object as it was loaded.
\<close>

definition renew :: "vendor \<Rightarrow> valves \<Rightarrow> creds option \<Rightarrow> world
    \<Rightarrow> (exn option \<times> creds option) \<times> world" where
  "renew vd vs cr w =
     (case (case cr of
              Some c \<Rightarrow>
                if expired c \<and> truthy_str (refresh_token c)
                then refresh_creds vd c w
                else consent_flow vd vs w
            | None \<Rightarrow> consent_flow vd vs w) of
        (Inl e, w') \<Rightarrow> ((Some e, cr), w')
      | (Inr c', w') \<Rightarrow> ((None, Some c'), write_file ''token.json'' (to_json c') w'))"

text \<open>
  The body of the \<^verbatim>\<open>try\<close> of \<^verbatim>\<open>get_google_creds\<close>. Its outcome is the
  exception that left it, if any, the value of the local variable \<^verbatim>\<open>creds\<close> at that
  moment, and the world.
\<close>

definition try_get_google_creds :: "vendor \<Rightarrow> valves \<Rightarrow> world
    \<Rightarrow> (exn option \<times> creds option) \<times> world" where
  "try_get_google_creds vd vs w =
     (case (if files w ''token.json'' \<noteq> None
            then (case from_authorized_user_file vd ''token.json'' w of
                    Inl e \<Rightarrow> Inl e
                  | Inr c \<Rightarrow> Inr (Some c))
            else Inr None) of
        Inl e \<Rightarrow> ((Some e, None), w)
      | Inr cr \<Rightarrow>
          (case cr of
             None \<Rightarrow> renew vd vs cr w
           | Some c \<Rightarrow> if \<not> valid c then renew vd vs cr w else ((None, cr), w)))"

function get_google_creds :: "vendor \<Rightarrow> valves \<Rightarrow> bool \<Rightarrow> world
    \<Rightarrow> (exn + creds option) \<times> world" where
  "get_google_creds vd vs retry w =
     (case try_get_google_creds vd vs w of
        ((None, cr), w1) \<Rightarrow> (Inr cr, w1)
      | ((Some error, cr), w1) \<Rightarrow>
          (let w2 = logger ERROR (''Error getting credentials: '' @ str_exn error) w1 in
           if retry then
             (let w3 = logger INFO ''Retrying to get credentials'' w2 in
              (case os_remove ''token.json'' w3 of
                 (Inl e, w4) \<Rightarrow> (Inl e, w4)
               | (Inr u, w4) \<Rightarrow> get_google_creds vd vs False w4))
           else (Inr cr, w2)))"
  by pat_completeness auto
termination
  by (relation "measure (\<lambda>(vd, vs, retry, w). if retry then 1 else 0)") auto

subsection \<open>Templates\<close>

definition MAIN_FORMAT :: "string \<Rightarrow> string \<Rightarrow> string" where
  "MAIN_FORMAT description output =
     ''\<newline><interpreter_output>\<newline>    <description>\<newline>        '' @ description @
     ''\<newline>    </description>\<newline>    <output>\<newline>        '' @ output @
     ''\<newline>    </output>\<newline></interpreter_output>\<newline>''"

definition MAIL_FORMAT ::
    "string \<Rightarrow> string \<Rightarrow> string \<Rightarrow> string \<Rightarrow> string \<Rightarrow> string \<Rightarrow> string \<Rightarrow> string" where
  "MAIL_FORMAT msg_id msg_date sender subject snippet unread email_body =
     ''\<newline><email>\<newline>    <message_id>'' @ msg_id @ ''</message_id>\<newline>    <date>'' @ msg_date @
     ''</date>\<newline>    <from>'' @ sender @ ''</from>\<newline>    <subject>'' @ subject @
     ''</subject>\<newline>    <snippet>'' @ snippet @ ''</snippet>\<newline>    <unread>'' @ unread @
     ''</unread>\<newline>    <email_body>'' @ email_body @ ''</email_body>\<newline></email>\<newline>''"

definition CALENDAR_FORMAT :: "string \<Rightarrow> string \<Rightarrow> string \<Rightarrow> string" where
  "CALENDAR_FORMAT start summary calendar =
     ''\<newline><event>\<newline>    <start>'' @ start @ ''</start>\<newline>    <summary>'' @ summary @
     ''</summary>\<newline>    <calendar>'' @ calendar @ ''</calendar>\<newline></event>\<newline>''"

subsection \<open>Effects\<close>

definition io_log :: "level \<Rightarrow> string \<Rightarrow> unit io" where
  "io_log l m w = (Inr (), logger l m w)"

definition vendor_call :: "call \<Rightarrow> (call list \<Rightarrow> exn + 'a) \<Rightarrow> 'a io" where
  "vendor_call c f w = (f (calls w), called c w)"

text \<open>\<^verbatim>\<open>try: ... except HttpError as error: out = ...\<close>\<close>

definition except_HttpError :: "'a io \<Rightarrow> (exn \<Rightarrow> 'a) \<Rightarrow> 'a io" where
  "except_HttpError m handler w =
     (case m w of
        (Inl e, w') \<Rightarrow> if is_HttpError e then (Inr (handler e), w') else (Inl e, w')
      | (Inr x, w') \<Rightarrow> (Inr x, w'))"

text \<open>
  \<^verbatim>\<open>await __event_emitter__(status)\<close>. The emitter is \<^verbatim>\<open>None\<close> or a callable of the
  host, which may raise.
\<close>

type_synonym event_emitter = "(status \<Rightarrow> exn option) option"

definition await_emit :: "event_emitter \<Rightarrow> status \<Rightarrow> unit io" where
  "await_emit ee st w =
     (case ee of
        None \<Rightarrow> (Inl (TypeError ''NoneType object is not callable''), w)
      | Some f \<Rightarrow>
          (case f st of
             Some e \<Rightarrow> (Inl e, w)
           | None \<Rightarrow> (Inr (), w\<lparr>emitted := emitted w @ [st]\<rparr>)))"

definition build_service :: "vendor \<Rightarrow> string \<Rightarrow> string \<Rightarrow> creds option \<Rightarrow> unit io" where
  "build_service vd name version cr w =
     ((case build vd (calls w) name version cr of Some e \<Rightarrow> Inl e | None \<Rightarrow> Inr ()),
      called (Build name version cr) w)"

definition get_current_time :: "vendor \<Rightarrow> string io" where
  "get_current_time vd w = (Inr (utcnow_isoformat vd (calls w) @ ''Z''), called UtcNow w)"

subsection \<open>Calendar helpers\<close>

fun collect_ids :: "calendar_resource list \<Rightarrow> exn + string list" where
  "collect_ids [] = Inr []"
| "collect_ids (cal # cals) =
     (case calendar_id cal of
        None \<Rightarrow> Inl (KeyError ''id'')
      | Some i \<Rightarrow> and_then (collect_ids cals) (\<lambda>out. Inr (i # out)))"

definition get_calendar_ids :: "stdlib \<Rightarrow> vendor \<Rightarrow> string list io" where
  "get_calendar_ids sl vd =
     io_bind (vendor_call CalendarListList (calendarList_list vd)) (\<lambda>calendars.
     io_bind (io_lift (collect_ids (case calendar_items calendars of None \<Rightarrow> [] | Some cals \<Rightarrow> cals)))
       (\<lambda>out.
     io_bind (io_log DEBUG (''Got following calendars '' @ py_repr sl (PyList (map PyStr out))))
       (\<lambda>u. io_lift (Inr out))))"

text \<open>An entry of \<^verbatim>\<open>event_list\<close>: the dictionary \<^verbatim>\<open>get_cal_evts\<close> builds.\<close>

record entry =
  start :: "string option"
  summary :: string
  calendar :: string

definition to_entry :: "event_resource \<Rightarrow> exn + entry" where
  "to_entry event =
     (case event_start event of
        None \<Rightarrow> Inl (KeyError ''start'')
      | Some st \<Rightarrow>
     (case event_summary event of
        None \<Rightarrow> Inl (KeyError ''summary'')
      | Some sm \<Rightarrow>
     (case event_organizer event of
        None \<Rightarrow> Inl (KeyError ''organizer'')
      | Some org \<Rightarrow>
     (case email org of
        None \<Rightarrow> Inl (KeyError ''email'')
      | Some em \<Rightarrow>
          Inr \<lparr>start = (case dateTime st of Some d \<Rightarrow> Some d | None \<Rightarrow> date st),
               summary = sm,
               calendar = (case displayName org of Some n \<Rightarrow> n | None \<Rightarrow> em)\<rparr>))))"

fun to_entries :: "event_resource list \<Rightarrow> exn + entry list" where
  "to_entries [] = Inr []"
| "to_entries (event # events) =
     and_then (to_entry event) (\<lambda>x. and_then (to_entries events) (\<lambda>out. Inr (x # out)))"

definition get_cal_evts :: "vendor \<Rightarrow> string \<Rightarrow> int \<Rightarrow> string \<Rightarrow> entry list io" where
  "get_cal_evts vd cal_id number_of_events from_time =
     io_bind (vendor_call (EventsList cal_id number_of_events from_time)
                (\<lambda>h. events_list vd h cal_id number_of_events from_time)) (\<lambda>events_result.
     io_lift (to_entries (case event_items events_result of None \<Rightarrow> [] | Some events \<Rightarrow> events)))"

text \<open>
  \<^verbatim>\<open>event_list.sort(key=lambda x: x["start"])\<close>: a stable ascending sort on the
  \<^verbatim>\<open>start\<close> strings. A \<^verbatim>\<open>None\<close> among the keys of two or more entries makes a
  comparison raise \<^verbatim>\<open>TypeError\<close>; a list of fewer than two entries is not compared.
\<close>

definition start_key :: "entry \<Rightarrow> string" where
  "start_key x = (case start x of None \<Rightarrow> [] | Some s \<Rightarrow> s)"

definition sort_by_start :: "entry list \<Rightarrow> exn + entry list" where
  "sort_by_start event_list =
     (if 2 \<le> length event_list \<and> (\<exists>x \<in> set event_list. start x = None)
      then Inl (TypeError ''< not supported between instances of NoneType and str'')
      else Inr (sort_key start_key event_list))"

definition format_event :: "entry \<Rightarrow> string" where
  "format_event x =
     CALENDAR_FORMAT (case start x of None \<Rightarrow> ''None'' | Some s \<Rightarrow> s) (summary x) (calendar x)"

text \<open>
  \<^verbatim>\<open>for i in range(count): out += CALENDAR_FORMAT.format(... event_list[i] ...)\<close>,
  given the indices still to visit.
\<close>

fun format_range :: "entry list \<Rightarrow> nat list \<Rightarrow> string \<Rightarrow> exn + string" where
  "format_range event_list [] out = Inr out"
| "format_range event_list (i # rest) out =
     (if i < length event_list
      then format_range event_list rest (out @ format_event (event_list ! i))
      else Inl (IndexError ''list index out of range''))"

definition py_range :: "int \<Rightarrow> nat list" where
  "py_range n = [0 ..< nat n]"

text \<open>\<^verbatim>\<open>for calendar_id in calendar_ids: event_list += get_cal_evts(...)\<close>\<close>

fun fetch_all :: "vendor \<Rightarrow> string list \<Rightarrow> int \<Rightarrow> string \<Rightarrow> entry list \<Rightarrow> entry list io" where
  "fetch_all vd [] n from_time event_list = io_lift (Inr event_list)"
| "fetch_all vd (cal_id # cal_ids) n from_time event_list =
     io_bind (get_cal_evts vd cal_id n from_time) (\<lambda>events.
     fetch_all vd cal_ids n from_time (event_list @ events))"

subsection \<open>Gmail helpers\<close>

text \<open>\<^verbatim>\<open>next((field for field in payload if field["name"] == name), None)\<close>\<close>

fun find_header :: "pyval list \<Rightarrow> string \<Rightarrow> exn + pyval option" where
  "find_header [] name = Inr None"
| "find_header (field # rest) name =
     and_then (subscript field ''name'') (\<lambda>n.
     if n = PyStr name then Inr (Some field) else find_header rest name)"

definition get_header_value :: "pyval \<Rightarrow> string \<Rightarrow> exn + pyval" where
  "get_header_value payload name =
     and_then (py_iter payload) (\<lambda>items.
     and_then (find_header items name) (\<lambda>found.
     case found of
       None \<Rightarrow> Inr (PyStr [])
     | Some field \<Rightarrow> if truthy field then subscript field ''value'' else Inr (PyStr [])))"

definition decode_mail_body :: "stdlib \<Rightarrow> pyval \<Rightarrow> exn + string" where
  "decode_mail_body sl data =
     (case data of
        PyStr s \<Rightarrow> and_then (b64decode sl s) (\<lambda>bytes. Inr (html_escape (utf8_decode_replace sl bytes)))
      | _ \<Rightarrow> Inl (TypeError ''argument should be a bytes-like object or ASCII string''))"

definition body_data :: "pyval \<Rightarrow> exn + pyval" where
  "body_data p = and_then (subscript p ''body'') (\<lambda>b. subscript b ''data'')"

text \<open>
  The \<^verbatim>\<open>for part in payload["parts"]\<close> loop: \<open>Some\<close> the value it returns, \<open>None\<close>
  when it ends without returning.
\<close>

fun scan_parts :: "stdlib \<Rightarrow> pyval list \<Rightarrow> exn + string option" where
  "scan_parts sl [] = Inr None"
| "scan_parts sl (part # parts) =
     and_then (subscript part ''mimeType'') (\<lambda>m.
     if m = PyStr ''text/html'' \<or> m = PyStr ''text/plain''
     then and_then (body_data part) (\<lambda>d. and_then (decode_mail_body sl d) (\<lambda>s. Inr (Some s)))
     else scan_parts sl parts)"

definition try_parse_email_body :: "stdlib \<Rightarrow> pyval \<Rightarrow> exn + string" where
  "try_parse_email_body sl payload =
     and_then (subscript payload ''mimeType'') (\<lambda>m.
     and_then (if m = PyStr ''multipart/alternative'' \<or> m = PyStr ''multipart/mixed''
               then and_then (subscript payload ''parts'') (\<lambda>ps.
                    and_then (py_iter ps) (scan_parts sl))
               else Inr None) (\<lambda>returned.
     case returned of
       Some s \<Rightarrow> Inr s
     | None \<Rightarrow> and_then (body_data payload) (decode_mail_body sl)))"

definition parse_email_body :: "stdlib \<Rightarrow> pyval \<Rightarrow> exn + string" where
  "parse_email_body sl payload =
     (case try_parse_email_body sl payload of
        Inr s \<Rightarrow> Inr s
      | Inl (ValueError m) \<Rightarrow> Inr (''Error decoding email body: '' @ str_exn (ValueError m))
      | Inl (KeyError k) \<Rightarrow> Inr (''Error parsing email body: '' @ str_exn (KeyError k))
      | Inl err \<Rightarrow> Inr (''Error: '' @ str_exn err))"

definition header_of :: "pyval \<Rightarrow> string \<Rightarrow> exn + pyval" where
  "header_of mail name =
     and_then (subscript mail ''payload'') (\<lambda>p.
     and_then (subscript p ''headers'') (\<lambda>hs. get_header_value hs name))"

text \<open>The body of the loop of \<^verbatim>\<open>get_user_emails\<close> once the message is fetched.\<close>

definition format_mail :: "stdlib \<Rightarrow> pyval \<Rightarrow> pyval \<Rightarrow> exn + string" where
  "format_mail sl msg mail =
     and_then (subscript mail ''payload'') (\<lambda>payload.
     and_then (parse_email_body sl payload) (\<lambda>email_body.
     and_then (header_of mail ''Date'') (\<lambda>msg_date.
     and_then (header_of mail ''From'') (\<lambda>sender.
     and_then (header_of mail ''Subject'') (\<lambda>subject.
     and_then (subscript mail ''snippet'') (\<lambda>snippet.
     and_then (and_then (subscript mail ''labelIds'') (contains_str ''UNREAD'')) (\<lambda>unread.
     and_then (subscript msg ''id'') (\<lambda>msg_id.
     Inr (MAIL_FORMAT (py_str sl msg_id) (py_str sl msg_date) (py_str sl sender)
            (py_str sl subject) (py_str sl snippet) (py_str sl (PyBool unread)) email_body)))))))))"

fun mail_loop :: "stdlib \<Rightarrow> vendor \<Rightarrow> pyval list \<Rightarrow> string \<Rightarrow> string io" where
  "mail_loop sl vd [] out = io_lift (Inr out)"
| "mail_loop sl vd (msg # msgs) out =
     io_bind (io_lift (subscript msg ''id'')) (\<lambda>msg_id.
     io_bind (vendor_call (MessagesGet msg_id) (\<lambda>h. messages_get vd h msg_id)) (\<lambda>mail.
     io_bind (io_lift (format_mail sl msg mail)) (\<lambda>formatted.
     mail_loop sl vd msgs (out @ formatted))))"

subsection \<open>The public operations\<close>

text \<open>
  Each operation is given the standard library, the vendor library, the valves of the
  \<^verbatim>\<open>Tools\<close> object and its own arguments; \<open>ee\<close> is \<^verbatim>\<open>__event_emitter__\<close>. The
  \<open>try_\<close> functions are the bodies of the \<^verbatim>\<open>try\<close> blocks.
\<close>

definition try_get_user_emails :: "stdlib \<Rightarrow> vendor \<Rightarrow> valves \<Rightarrow> int \<Rightarrow> string \<Rightarrow> string io" where
  "try_get_user_emails sl vd vs n label_id =
     io_bind (get_google_creds vd vs True) (\<lambda>cr.
     io_bind (build_service vd ''gmail'' ''v1'' cr) (\<lambda>service.
     io_bind (vendor_call (MessagesList n label_id) (\<lambda>h. messages_list vd h n label_id)) (\<lambda>results.
     io_bind (io_lift (dict_get results ''messages'' (PyList []))) (\<lambda>messages.
     if \<not> truthy messages then io_lift (Inr ''No messages found.'')
     else io_bind (io_lift (py_iter messages)) (\<lambda>msgs. mail_loop sl vd msgs [])))))"

definition get_user_emails ::
    "stdlib \<Rightarrow> vendor \<Rightarrow> valves \<Rightarrow> int \<Rightarrow> string \<Rightarrow> event_emitter \<Rightarrow> string io" where
  "get_user_emails sl vd vs count' label_id ee =
     (let n = (if count' = - 1 then default_email_entries vs else count') in
      io_bind (await_emit ee
        \<lparr>status_description = ''Fetching user emails...'', status_done = False\<rparr>) (\<lambda>u.
      io_bind (get_current_time vd) (\<lambda>now.
      (let description = ''The requested  '' @ str_int n @
             '' emails from the user's inbox that have the label '' @ label_id @
             ''. Today is '' @ now in
       io_bind (io_log DEBUG description) (\<lambda>u.
       io_bind (except_HttpError (try_get_user_emails sl vd vs n label_id)
                  (\<lambda>error. ''An error occurred: '' @ str_exn error)) (\<lambda>out.
       (let result = MAIN_FORMAT description (''<emails>'' @ out @ ''</emails>'') in
        io_bind (io_log DEBUG result) (\<lambda>u.
        io_bind (await_emit ee
          \<lparr>status_description = ''Fetched user emails!'', status_done = True\<rparr>) (\<lambda>u.
        io_lift (Inr result))))))))))"

definition try_get_email_content :: "stdlib \<Rightarrow> vendor \<Rightarrow> valves \<Rightarrow> string \<Rightarrow> string io" where
  "try_get_email_content sl vd vs message_id =
     io_bind (get_google_creds vd vs True) (\<lambda>cr.
     io_bind (build_service vd ''gmail'' ''v1'' cr) (\<lambda>service.
     io_bind (vendor_call (MessagesGet (PyStr message_id))
                (\<lambda>h. messages_get vd h (PyStr message_id))) (\<lambda>mail.
     io_lift (and_then (subscript mail ''payload'') (parse_email_body sl)))))"

definition get_email_content ::
    "stdlib \<Rightarrow> vendor \<Rightarrow> valves \<Rightarrow> string \<Rightarrow> event_emitter \<Rightarrow> string io" where
  "get_email_content sl vd vs message_id ee =
     io_bind (await_emit ee
       \<lparr>status_description = ''Fetching email content...'', status_done = False\<rparr>) (\<lambda>u.
     io_bind (get_current_time vd) (\<lambda>now.
     (let description = ''Contents of the email message for message_id: '' @ message_id @
            ''. Today is '' @ now in
      io_bind (io_log DEBUG description) (\<lambda>u.
      io_bind (except_HttpError (try_get_email_content sl vd vs message_id)
                 (\<lambda>error. ''An error occurred: '' @ str_exn error)) (\<lambda>email_body.
      (let result = MAIN_FORMAT description (''<![CDATA['' @ email_body @ '']]>'') in
       io_bind (io_log DEBUG result) (\<lambda>u.
       io_bind (await_emit ee
         \<lparr>status_description = ''Fetched email content!'', status_done = True\<rparr>) (\<lambda>u.
       io_lift (Inr result)))))))))"

definition try_gmail_create_draft ::
    "stdlib \<Rightarrow> vendor \<Rightarrow> valves \<Rightarrow> string \<Rightarrow> string \<Rightarrow> string \<Rightarrow> string io" where
  "try_gmail_create_draft sl vd vs to subject body =
     io_bind (get_google_creds vd vs True) (\<lambda>cr.
     io_bind (build_service vd ''gmail'' ''v1'' cr) (\<lambda>service.
     io_bind (io_lift (message_as_bytes sl body to subject)) (\<lambda>bytes.
     (let encoded_message = urlsafe_b64encode sl bytes in
      io_bind (vendor_call (DraftsCreate encoded_message)
                 (\<lambda>h. drafts_create vd h encoded_message)) (\<lambda>draft.
      io_lift (Inr ''Draft message created!''))))))"

definition gmail_create_draft ::
    "stdlib \<Rightarrow> vendor \<Rightarrow> valves \<Rightarrow> string \<Rightarrow> string \<Rightarrow> string \<Rightarrow> event_emitter \<Rightarrow> string io" where
  "gmail_create_draft sl vd vs to subject body ee =
     io_bind (io_log DEBUG ''Creating draft message...'') (\<lambda>u.
     io_bind (await_emit ee
       \<lparr>status_description = ''Creating email draft...'', status_done = False\<rparr>) (\<lambda>u.
     io_bind (except_HttpError (try_gmail_create_draft sl vd vs to subject body)
                (\<lambda>error. ''An error occurred: '' @ str_exn error)) (\<lambda>out.
     io_bind (io_log DEBUG out) (\<lambda>u.
     io_bind (await_emit ee
       \<lparr>status_description = ''Email draft created!'', status_done = True\<rparr>) (\<lambda>u.
     io_lift (Inr out))))))"

definition try_get_user_events :: "stdlib \<Rightarrow> vendor \<Rightarrow> valves \<Rightarrow> int \<Rightarrow> string io" where
  "try_get_user_events sl vd vs n =
     io_bind (get_google_creds vd vs True) (\<lambda>cr.
     io_bind (build_service vd ''calendar'' ''v3'' cr) (\<lambda>service.
     io_bind (get_current_time vd) (\<lambda>from_time.
     io_bind (get_calendar_ids sl vd) (\<lambda>calendar_ids.
     io_bind (fetch_all vd calendar_ids n from_time []) (\<lambda>event_list.
     io_lift (and_then (sort_by_start event_list) (\<lambda>sorted_list.
              format_range sorted_list (py_range n) [])))))))"

definition get_user_events ::
    "stdlib \<Rightarrow> vendor \<Rightarrow> valves \<Rightarrow> int \<Rightarrow> event_emitter \<Rightarrow> string io" where
  "get_user_events sl vd vs count' ee =
     (let n = (if count' = - 1 then default_calendar_entries vs else count') in
      io_bind (await_emit ee
        \<lparr>status_description = ''Fetching user calendar entries...'', status_done = False\<rparr>) (\<lambda>u.
      io_bind (get_current_time vd) (\<lambda>now.
      (let description = ''The requested '' @ str_int n @
             '' upcoming events from the user's calendar. Today is '' @ now in
       io_bind (io_log DEBUG description) (\<lambda>u.
       io_bind (except_HttpError (try_get_user_events sl vd vs n)
                  (\<lambda>error. ''Error fetching calendar data: '' @ str_exn error)) (\<lambda>out.
       (let results = MAIN_FORMAT description (''<events>'' @ out @ ''</events>'') in
        io_bind (io_log DEBUG results) (\<lambda>u.
        io_bind (await_emit ee
          \<lparr>status_description = ''Fetched user calendar entries!'', status_done = True\<rparr>) (\<lambda>u.
        io_lift (Inr results))))))))))"

subsection \<open>Quantities the statements speak of\<close>

text \<open>The number of times a retry of the credential acquisition was announced in the log.\<close>

definition retries :: "world \<Rightarrow> nat" where
  "retries w = length (filter (\<lambda>e. e = (INFO, ''Retrying to get credentials'')) (log w))"

text \<open>
  The description an operation logs, and the world in which it enters its \<^verbatim>\<open>try\<close>
  block: the first status is emitted, the clock is read and the description is logged.
\<close>

definition fetching_events :: status where
  "fetching_events =
     \<lparr>status_description = ''Fetching user calendar entries...'', status_done = False\<rparr>"

definition events_description :: "int \<Rightarrow> string \<Rightarrow> string" where
  "events_description n now =
     ''The requested '' @ str_int n @
     '' upcoming events from the user's calendar. Today is '' @ now"

definition events_entry_world :: "vendor \<Rightarrow> int \<Rightarrow> world \<Rightarrow> world" where
  "events_entry_world vd n w =
     logger DEBUG (events_description n (utcnow_isoformat vd (calls w) @ ''Z''))
       (called UtcNow (w\<lparr>emitted := emitted w @ [fetching_events]\<rparr>))"

definition emails_description :: "int \<Rightarrow> string \<Rightarrow> string \<Rightarrow> string" where
  "emails_description n label_id now =
     ''The requested  '' @ str_int n @
     '' emails from the user's inbox that have the label '' @ label_id @
     ''. Today is '' @ now"

definition emails_entry_world :: "vendor \<Rightarrow> int \<Rightarrow> string \<Rightarrow> world \<Rightarrow> world" where
  "emails_entry_world vd n label_id w =
     logger DEBUG (emails_description n label_id (utcnow_isoformat vd (calls w) @ ''Z''))
       (called UtcNow (w\<lparr>emitted := emitted w @
          [\<lparr>status_description = ''Fetching user emails...'', status_done = False\<rparr>]\<rparr>))"

definition content_description :: "string \<Rightarrow> string \<Rightarrow> string" where
  "content_description message_id now =
     ''Contents of the email message for message_id: '' @ message_id @ ''. Today is '' @ now"

definition content_entry_world :: "vendor \<Rightarrow> string \<Rightarrow> world \<Rightarrow> world" where
  "content_entry_world vd message_id w =
     logger DEBUG (content_description message_id (utcnow_isoformat vd (calls w) @ ''Z''))
       (called UtcNow (w\<lparr>emitted := emitted w @
          [\<lparr>status_description = ''Fetching email content...'', status_done = False\<rparr>]\<rparr>))"

text \<open>
  The events of an answer of the Calendar service
  (\<^verbatim>\<open>events_result.get("items", [])\<close>), and the answers the service gives to the
  requests for at most \<open>n\<close> events of each of the calendars \<open>ids\<close>, made one after
  the other once the calls \<open>h\<close> have been made.
\<close>

definition items_of :: "events_result \<Rightarrow> event_resource list" where
  "items_of r = (case event_items r of None \<Rightarrow> [] | Some events \<Rightarrow> events)"

fun events_answers ::
    "vendor \<Rightarrow> string list \<Rightarrow> int \<Rightarrow> string \<Rightarrow> call list \<Rightarrow> (exn + events_result) list" where
  "events_answers vd [] n from_time h = []"
| "events_answers vd (c # cs) n from_time h =
     events_list vd h c n from_time
       # events_answers vd cs n from_time (h @ [EventsList c n from_time])"

subsection \<open>What the specification says\<close>

definition is_text_part :: "pyval \<Rightarrow> bool" where
  "is_text_part part =
     (subscript part ''mimeType'' = Inr (PyStr ''text/html'')
      \<or> subscript part ''mimeType'' = Inr (PyStr ''text/plain''))"

definition is_multipart :: "pyval \<Rightarrow> bool" where
  "is_multipart payload =
     (subscript payload ''mimeType'' = Inr (PyStr ''multipart/alternative'')
      \<or> subscript payload ''mimeType'' = Inr (PyStr ''multipart/mixed''))"

text \<open>
  The part whose body the specification has decoded: in a multipart payload the first
  immediate child part that is \<^verbatim>\<open>text/html\<close> or \<^verbatim>\<open>text/plain\<close>, and the payload
  itself when there is none or when the payload is not multipart.
\<close>

definition spec_body_part :: "pyval \<Rightarrow> pyval list \<Rightarrow> pyval" where
  "spec_body_part payload parts =
     (if is_multipart payload
      then (case find is_text_part parts of Some part \<Rightarrow> part | None \<Rightarrow> payload)
      else payload)"

text \<open>
  A text made of \<^verbatim>\<open><email>\<close> records, and one made of \<^verbatim>\<open><event>\<close> records, each
  record with the field tags of its template.
\<close>

definition email_records :: "string \<Rightarrow> bool" where
  "email_records out =
     (\<exists>recs. out = concat recs
        \<and> (\<forall>r \<in> set recs. \<exists>i d f s n u b. r = MAIL_FORMAT i d f s n u b))"

definition event_records :: "string \<Rightarrow> bool" where
  "event_records out =
     (\<exists>recs. out = concat recs \<and> (\<forall>r \<in> set recs. \<exists>s t c. r = CALENDAR_FORMAT s t c))"

text \<open>A text is in the envelope when it is the main template around some description and output.\<close>

definition enveloped :: "string \<Rightarrow> bool" where
  "enveloped s = (\<exists>d out. s = MAIN_FORMAT d out)"

text \<open>
  The field of an \<^verbatim>\<open><email>\<close> record that the specification fills from the header
  \<open>name\<close>: the value of the first header that has exactly that name, and the empty
  string when no header has it.
\<close>

definition header_field :: "stdlib \<Rightarrow> pyval list \<Rightarrow> string \<Rightarrow> string" where
  "header_field sl hs name =
     (case find (\<lambda>h. subscript h ''name'' = Inr (PyStr name)) hs of
        None \<Rightarrow> []
      | Some h \<Rightarrow> (case subscript h ''value'' of Inr v \<Rightarrow> py_str sl v | Inl e \<Rightarrow> []))"

text \<open>
  The calendar event of the specification: its start is the \<^verbatim>\<open>dateTime\<close> of the
  event if present, else the all-day \<^verbatim>\<open>date\<close>, and its calendar label is the display
  name of the organizer if present, else the organizer's email. An event is complete
  when it has a start with a \<^verbatim>\<open>dateTime\<close> or a \<^verbatim>\<open>date\<close>, a summary, and an
  organizer with an email.
\<close>

definition calendar_event :: "event_resource \<Rightarrow> entry" where
  "calendar_event ev =
     \<lparr>start = (case event_start ev of
                 None \<Rightarrow> None
               | Some st \<Rightarrow> (case dateTime st of Some d \<Rightarrow> Some d | None \<Rightarrow> date st)),
      summary = (case event_summary ev of None \<Rightarrow> [] | Some s \<Rightarrow> s),
      calendar = (case event_organizer ev of
                    None \<Rightarrow> []
                  | Some org \<Rightarrow>
                      (case displayName org of
                         Some nm \<Rightarrow> nm
                       | None \<Rightarrow> (case email org of None \<Rightarrow> [] | Some em \<Rightarrow> em)))\<rparr>"

definition complete_event :: "event_resource \<Rightarrow> bool" where
  "complete_event ev =
     ((case event_start ev of
         None \<Rightarrow> False
       | Some st \<Rightarrow>
           (case dateTime st of
              Some d \<Rightarrow> True
            | None \<Rightarrow> (case date st of Some d \<Rightarrow> True | None \<Rightarrow> False)))
      \<and> (case event_summary ev of None \<Rightarrow> False | Some s \<Rightarrow> True)
      \<and> (case event_organizer ev of
           None \<Rightarrow> False
         | Some org \<Rightarrow> (case email org of None \<Rightarrow> False | Some em \<Rightarrow> True)))"

subsection \<open>Libraries, worlds and messages for the examples\<close>

text \<open>A vendor library every call of which fails, at a fixed time.\<close>

definition failing_vendor :: vendor where
  "failing_vendor =
     \<lparr>from_authorized_user_info = (\<lambda>s. Inl (ValueError ''malformed token'')),
      refresh = (\<lambda>h c. Inl (OtherException ''refresh failed'')),
      from_client_config = (\<lambda>s. Inl (ValueError ''malformed client secrets'')),
      run_local_server = (\<lambda>h f. Inl (OtherException ''consent denied'')),
      utcnow_isoformat = (\<lambda>h. ''2025-05-28T10:59:07''),
      build = (\<lambda>h name version c. Some (OtherException ''no credentials'')),
      messages_list = (\<lambda>h n l. Inl (HttpError ''HttpError 500'')),
      messages_get = (\<lambda>h i. Inl (HttpError ''HttpError 500'')),
      drafts_create = (\<lambda>h r. Inl (HttpError ''HttpError 500'')),
      calendarList_list = (\<lambda>h. Inl (HttpError ''HttpError 500'')),
      events_list = (\<lambda>h c n t. Inl (HttpError ''HttpError 500''))\<rparr>"

definition corrupt_token_world :: world where
  "corrupt_token_world =
     \<lparr>files = [''token.json'' \<mapsto> ''{''], calls = [], log = [], emitted = []\<rparr>"

definition first_run_world :: world where
  "first_run_world = \<lparr>files = Map.empty, calls = [], log = [], emitted = []\<rparr>"

text \<open>
  Base64 decoding in the default, non-validating mode: characters outside the alphabet
  are skipped, decoding stops at the padding that completes a group, and data that ends
  inside a group is an error (\<^verbatim>\<open>binascii.Error\<close>, a \<^verbatim>\<open>ValueError\<close>).
\<close>

definition b64_value :: "char \<Rightarrow> nat option" where
  "b64_value c =
     (let n = (of_char c :: nat) in
      if 65 \<le> n \<and> n \<le> 90 then Some (n - 65)
      else if 97 \<le> n \<and> n \<le> 122 then Some (n - 71)
      else if 48 \<le> n \<and> n \<le> 57 then Some (n + 4)
      else if c = CHR ''+'' then Some 62
      else if c = CHR ''/'' then Some 63
      else None)"

fun b64_collect :: "string \<Rightarrow> nat list \<Rightarrow> nat \<Rightarrow> nat list \<times> bool" where
  "b64_collect [] vals pads = (vals, False)"
| "b64_collect (c # cs) vals pads =
     (if c = CHR ''='' then
        (if 2 \<le> length vals mod 4 \<and> 4 \<le> length vals mod 4 + (pads + 1)
         then (vals, True)
         else b64_collect cs vals (if 2 \<le> length vals mod 4 then pads + 1 else pads))
      else (case b64_value c of
              None \<Rightarrow> b64_collect cs vals pads
            | Some v \<Rightarrow> b64_collect cs (vals @ [v]) 0))"

fun b64_bytes :: "nat list \<Rightarrow> string" where
  "b64_bytes (a # b # c # d # rest) =
     char_of (a * 4 + b div 16) # char_of (b mod 16 * 16 + c div 4) # char_of (c mod 4 * 64 + d)
       # b64_bytes rest"
| "b64_bytes [a, b, c] = [char_of (a * 4 + b div 16), char_of (b mod 16 * 16 + c div 4)]"
| "b64_bytes [a, b] = [char_of (a * 4 + b div 16)]"
| "b64_bytes vals = []"

definition b64decode_default :: "string \<Rightarrow> exn + string" where
  "b64decode_default s =
     (if \<exists>c \<in> set s. 128 \<le> (of_char c :: nat)
      then Inl (ValueError ''string argument should contain only ASCII characters'')
      else (case b64_collect s [] 0 of
              (vals, stopped) \<Rightarrow>
                if stopped \<or> length vals mod 4 = 0 then Inr (b64_bytes vals)
                else if length vals mod 4 = 1
                then Inl (ValueError ''Invalid base64-encoded string'')
                else Inl (ValueError ''Incorrect padding'')))"

text \<open>
  Base64url encoding, and the rest of the example library: decoding UTF-8 is the
  identity (the examples hold valid UTF-8), a list of plain strings is rendered as
  Python does and any other container by the name of its type, and a message is
  serialised the way \<^verbatim>\<open>EmailMessage\<close> serialises short ASCII text.
\<close>

definition b64url_digit :: "nat \<Rightarrow> char" where
  "b64url_digit n =
     (if n < 26 then char_of (65 + n)
      else if n < 52 then char_of (71 + n)
      else if n < 62 then char_of (n - 4)
      else if n = 62 then CHR ''-''
      else CHR ''_'')"

fun b64url_chars :: "nat list \<Rightarrow> string" where
  "b64url_chars (a # b # c # rest) =
     b64url_digit (a div 4) # b64url_digit (a mod 4 * 16 + b div 16)
       # b64url_digit (b mod 16 * 4 + c div 64) # b64url_digit (c mod 64) # b64url_chars rest"
| "b64url_chars [a, b] =
     [b64url_digit (a div 4), b64url_digit (a mod 4 * 16 + b div 16),
      b64url_digit (b mod 16 * 4), CHR ''='']"
| "b64url_chars [a] = [b64url_digit (a div 4), b64url_digit (a mod 4 * 16), CHR ''='', CHR ''='']"
| "b64url_chars [] = []"

definition repr_str_list :: "pyval \<Rightarrow> string" where
  "repr_str_list v =
     (case v of
        PyList xs \<Rightarrow>
          ''['' @ concat (map (\<lambda>(i, x). (if i = 0 then [] else '', '') @
                   (case x of PyStr s \<Rightarrow> [CHR 0x27] @ s @ [CHR 0x27] | _ \<Rightarrow> type_name x))
                 (zip [0 ..< length xs] xs)) @ '']''
      | _ \<Rightarrow> type_name v)"

definition example_stdlib :: stdlib where
  "example_stdlib =
     \<lparr>b64decode = b64decode_default,
      utf8_decode_replace = (\<lambda>bytes. bytes),
      py_repr = repr_str_list,
      message_as_bytes = (\<lambda>body to subject.
         Inr (''Content-Type: text/plain; charset='' @ [CHR 0x22] @ ''utf-8'' @ [CHR 0x22] @ ''\<newline>'' @
              ''Content-Transfer-Encoding: 7bit\<newline>MIME-Version: 1.0\<newline>To: '' @ to @
              ''\<newline>Subject: '' @ subject @ ''\<newline>\<newline>'' @ body @ ''\<newline>'')),
      urlsafe_b64encode = (\<lambda>bytes. b64url_chars (map of_char bytes))\<rparr>"

definition plain_part :: pyval where
  "plain_part =
     PyDict [(''mimeType'', PyStr ''text/plain''), (''body'', PyDict [(''data'', PyStr ''YSA8IGI='')])]"

definition html_part :: pyval where
  "html_part =
     PyDict [(''mimeType'', PyStr ''text/html''),
             (''body'', PyDict [(''data'', PyStr ''PHA+YTwvcD4='')])]"

definition example_headers :: "pyval list" where
  "example_headers =
     [PyDict [(''name'', PyStr ''subject''), (''value'', PyStr ''lower'')],
      PyDict [(''name'', PyStr ''From''), (''value'', PyStr ''a@b.c'')]]"

definition alternative_payload :: pyval where
  "alternative_payload =
     PyDict [(''mimeType'', PyStr ''multipart/alternative''),
             (''headers'', PyList example_headers),
             (''body'', PyDict [(''size'', PyInt 0)]),
             (''parts'', PyList [plain_part, html_part])]"

definition truncated_payload :: pyval where
  "truncated_payload =
     PyDict [(''mimeType'', PyStr ''text/plain''), (''body'', PyDict [(''data'', PyStr ''aGVsbG8'')])]"

definition example_mail :: pyval where
  "example_mail =
     PyDict [(''id'', PyStr ''194d1f624c165d4b''),
             (''snippet'', PyStr ''a''),
             (''labelIds'', PyList [PyStr ''INBOX'', PyStr ''UNREAD'']),
             (''payload'', alternative_payload)]"

text \<open>
  Calendar \<^verbatim>\<open>A\<close> holds events one and three hours from now, calendar \<^verbatim>\<open>B\<close> an event
  two hours from now; the organizer of the calendar \<^verbatim>\<open>B\<close> has a display name.
\<close>

definition event_at :: "string \<Rightarrow> string \<Rightarrow> organizer \<Rightarrow> event_resource" where
  "event_at t title org =
     \<lparr>event_start = Some \<lparr>dateTime = Some t, date = None\<rparr>,
      event_summary = Some title,
      event_organizer = Some org\<rparr>"

definition organizer_A :: organizer where
  "organizer_A = \<lparr>displayName = None, email = Some ''a@example.com''\<rparr>"

definition organizer_B :: organizer where
  "organizer_B = \<lparr>displayName = Some ''Team B'', email = Some ''b@example.com''\<rparr>"

definition example_events :: "string \<Rightarrow> event_resource list" where
  "example_events cal_id =
     (if cal_id = ''A'' then
        [event_at ''2025-05-28T12:00:00Z'' ''one'' organizer_A,
         event_at ''2025-05-28T14:00:00Z'' ''three'' organizer_A]
      else if cal_id = ''B'' then [event_at ''2025-05-28T13:00:00Z'' ''two'' organizer_B]
      else [])"

definition example_creds :: creds where
  "example_creds = \<lparr>valid = True, expired = False, refresh_token = Some ''r'', to_json = ''{}''\<rparr>"

definition example_vendor :: vendor where
  "example_vendor =
     \<lparr>from_authorized_user_info = (\<lambda>s. Inr example_creds),
      refresh = (\<lambda>h c. Inr c),
      from_client_config = (\<lambda>s. Inr (Flow s)),
      run_local_server = (\<lambda>h f. Inr example_creds),
      utcnow_isoformat = (\<lambda>h. ''2025-05-28T11:00:00''),
      build = (\<lambda>h name version c. None),
      messages_list = (\<lambda>h n l. Inr (PyDict [(''messages'',
                         PyList [PyDict [(''id'', PyStr ''194d1f624c165d4b'')]])])),
      messages_get = (\<lambda>h i. Inr example_mail),
      drafts_create = (\<lambda>h r. Inr (PyDict [(''id'', PyStr ''r1'')])),
      calendarList_list = (\<lambda>h. Inr \<lparr>calendar_items =
                         Some [\<lparr>calendar_id = Some ''A''\<rparr>, \<lparr>calendar_id = Some ''B''\<rparr>]\<rparr>),
      events_list = (\<lambda>h c n t. Inr \<lparr>event_items = Some (take (nat n) (example_events c))\<rparr>)\<rparr>"

definition authorised_world :: world where
  "authorised_world =
     \<lparr>files = [''token.json'' \<mapsto> ''{}''], calls = [], log = [], emitted = []\<rparr>"

definition example_emitter :: event_emitter where
  "example_emitter = Some (\<lambda>st. None)"

definition example_entries :: "string \<Rightarrow> entry list" where
  "example_entries cal_id =
     (if cal_id = ''A'' then
        [\<lparr>start = Some ''2025-05-28T12:00:00Z'', summary = ''one'', calendar = ''a@example.com''\<rparr>,
         \<lparr>start = Some ''2025-05-28T14:00:00Z'', summary = ''three'', calendar = ''a@example.com''\<rparr>]
      else if cal_id = ''B'' then
        [\<lparr>start = Some ''2025-05-28T13:00:00Z'', summary = ''two'', calendar = ''Team B''\<rparr>]
      else [])"

text \<open>The example vendor library with Gmail and Calendar out of service.\<close>

definition unavailable_vendor :: vendor where
  "unavailable_vendor =
     example_vendor
       \<lparr>messages_list := (\<lambda>h n l. Inl (HttpError ''HttpError 503'')),
        messages_get := (\<lambda>h i. Inl (HttpError ''HttpError 503'')),
        drafts_create := (\<lambda>h r. Inl (HttpError ''HttpError 503'')),
        calendarList_list := (\<lambda>h. Inl (HttpError ''HttpError 503''))\<rparr>"

text \<open>The example vendor library with a clock that has moved on at its second reading.\<close>

definition ticking_vendor :: vendor where
  "ticking_vendor =
     example_vendor
       \<lparr>utcnow_isoformat :=
          (\<lambda>h. if UtcNow \<in> set h then ''2025-05-28T11:00:01'' else ''2025-05-28T11:00:00'')\<rparr>"

text \<open>
  The example vendor library with a single calendar, whose only event has no title: the
  event has no \<^verbatim>\<open>summary\<close>.
\<close>

definition untitled_event :: event_resource where
  "untitled_event =
     \<lparr>event_start = Some \<lparr>dateTime = Some ''2025-05-28T12:00:00Z'', date = None\<rparr>,
      event_summary = None,
      event_organizer = Some organizer_A\<rparr>"

definition untitled_vendor :: vendor where
  "untitled_vendor =
     example_vendor
       \<lparr>calendarList_list := (\<lambda>h. Inr \<lparr>calendar_items = Some [\<lparr>calendar_id = Some ''A''\<rparr>]\<rparr>),
        events_list := (\<lambda>h c n t. Inr \<lparr>event_items = Some (take (nat n) [untitled_event])\<rparr>)\<rparr>"

section \<open>Properties\<close>

declare get_google_creds.simps [simp del]
declare str_nat.simps [simp del]

subsection \<open>The credential manager\<close>

lemma try_get_google_creds_log: "log (snd (try_get_google_creds vd vs w)) = log w"
  by (simp add: try_get_google_creds_def renew_def consent_flow_def refresh_creds_def
      called_def write_file_def split: option.splits sum.splits prod.splits)

lemma try_get_google_creds_raises_files:
  "try_get_google_creds vd vs w = ((Some e, cr), w1) \<Longrightarrow> files w1 = files w"
  by (auto simp add: try_get_google_creds_def renew_def consent_flow_def refresh_creds_def
      called_def write_file_def split: option.splits sum.splits prod.splits if_splits)

lemma get_google_creds_False:
  "get_google_creds vd vs False w =
     (case try_get_google_creds vd vs w of
        ((None, cr), w1) \<Rightarrow> (Inr cr, w1)
      | ((Some error, cr), w1) \<Rightarrow>
          (Inr cr, logger ERROR (''Error getting credentials: '' @ str_exn error) w1))"
  by (subst get_google_creds.simps) (simp split: prod.splits option.splits)

lemma get_google_creds_False_retries:
  "retries (snd (get_google_creds vd vs False w)) = retries w"
  using try_get_google_creds_log [of vd vs w]
  by (auto simp add: get_google_creds_False retries_def logger_def
      split: prod.splits option.splits)

text \<open>
  Claim C1, as stated, fails: with \<^verbatim>\<open>retry=False\<close> a failure of the acquisition does
  not reach the caller. With a corrupt token file and a vendor library whose every call
  fails, the body of the \<^verbatim>\<open>try\<close> raises, and \<^verbatim>\<open>get_google_creds(retry=False)\<close>
  returns \<^verbatim>\<open>None\<close>; so does \<^verbatim>\<open>get_google_creds(retry=True)\<close>, whose second attempt
  fails as well.
\<close>

theorem get_google_creds_swallows_failure:
  "fst (fst (try_get_google_creds failing_vendor default_valves corrupt_token_world))
     = Some (ValueError ''malformed token'')
   \<and> fst (get_google_creds failing_vendor default_valves False corrupt_token_world) = Inr None
   \<and> fst (get_google_creds failing_vendor default_valves True corrupt_token_world) = Inr None"
  by (simp add: failing_vendor_def corrupt_token_world_def default_valves_def
      try_get_google_creds_def from_authorized_user_file_def renew_def consent_flow_def
      from_client_secrets_file_def os_remove_def logger_def get_google_creds.simps)

text \<open>
  Claim C1, amended: whenever an exception leaves the load/refresh/consent sequence,
  if the retry flag is true and the token file exists, the file is deleted and the
  acquisition is attempted again with \<^verbatim>\<open>retry=False\<close>, exactly once (one retry is
  logged); if the retry flag is false, the exception is logged and the call returns
  the value \<^verbatim>\<open>creds\<close> had when the exception was raised, instead of raising.
\<close>

theorem get_google_creds_on_failure:
  assumes "try_get_google_creds vd vs w = ((Some error, cr), w1)"
  shows "(files w ''token.json'' \<noteq> None \<longrightarrow>
            get_google_creds vd vs True w =
              get_google_creds vd vs False
                (w1\<lparr>log := log w1 @ [(ERROR, ''Error getting credentials: '' @ str_exn error),
                                      (INFO, ''Retrying to get credentials'')],
                    files := (files w1)(''token.json'' := None)\<rparr>)
          \<and> retries (snd (get_google_creds vd vs True w)) = retries w + 1)
       \<and> get_google_creds vd vs False w =
            (Inr cr, w1\<lparr>log := log w1 @ [(ERROR, ''Error getting credentials: '' @ str_exn error)]\<rparr>)"
proof -
  have f: "files w1 = files w"
    using assms by (rule try_get_google_creds_raises_files)
  have l: "log w1 = log w"
    using try_get_google_creds_log [of vd vs w] assms by simp
  have no: "get_google_creds vd vs False w =
      (Inr cr, w1\<lparr>log := log w1 @ [(ERROR, ''Error getting credentials: '' @ str_exn error)]\<rparr>)"
    using assms by (simp add: get_google_creds_False logger_def)
  have yes: "get_google_creds vd vs True w =
      get_google_creds vd vs False
        (w1\<lparr>log := log w1 @ [(ERROR, ''Error getting credentials: '' @ str_exn error),
                              (INFO, ''Retrying to get credentials'')],
            files := (files w1)(''token.json'' := None)\<rparr>)"
    if "files w ''token.json'' \<noteq> None"
    using assms that f
    by (subst get_google_creds.simps) (auto simp add: os_remove_def logger_def Let_def)
  have cnt: "retries (snd (get_google_creds vd vs True w)) = retries w + 1"
    if "files w ''token.json'' \<noteq> None"
    using l by (simp add: yes [OF that] get_google_creds_False_retries) (simp add: retries_def)
  show ?thesis using no yes cnt by simp
qed

theorem get_google_creds_on_failure_witness:
  "try_get_google_creds failing_vendor default_valves corrupt_token_world =
     ((Some (ValueError ''malformed token''), None), corrupt_token_world)
   \<and> files corrupt_token_world ''token.json'' \<noteq> None
   \<and> retries (snd (get_google_creds failing_vendor default_valves True corrupt_token_world)) = 1
   \<and> get_google_creds failing_vendor default_valves False corrupt_token_world =
       (Inr None, corrupt_token_world\<lparr>log :=
          [(ERROR, ''Error getting credentials: malformed token'')]\<rparr>)"
proof -
  have t: "try_get_google_creds failing_vendor default_valves corrupt_token_world =
     ((Some (ValueError ''malformed token''), None), corrupt_token_world)"
    by (simp add: failing_vendor_def corrupt_token_world_def try_get_google_creds_def
        from_authorized_user_file_def)
  have f: "files corrupt_token_world ''token.json'' \<noteq> None"
    by (simp add: corrupt_token_world_def)
  have l: "log corrupt_token_world = []" "retries corrupt_token_world = 0"
    by (simp_all add: corrupt_token_world_def retries_def)
  note th = get_google_creds_on_failure [OF t]
  from th f have "retries (snd (get_google_creds failing_vendor default_valves True
      corrupt_token_world)) = retries corrupt_token_world + 1"
    by blast
  moreover from th have "get_google_creds failing_vendor default_valves False corrupt_token_world =
      (Inr None, corrupt_token_world\<lparr>log := log corrupt_token_world @
         [(ERROR, ''Error getting credentials: '' @ str_exn (ValueError ''malformed token''))]\<rparr>)"
    by blast
  ultimately show ?thesis
    using t f l by simp
qed

text \<open>
  Claim C9: if the acquisition fails while no token file exists, the retry branch
  fails in \<^verbatim>\<open>os.remove("token.json")\<close>: the call raises \<^verbatim>\<open>FileNotFoundError\<close> in
  place of the original failure, and no second acquisition is attempted (the world is
  the one the first attempt left, with the two log lines added).
\<close>

theorem get_google_creds_retry_without_token_file:
  assumes "try_get_google_creds vd vs w = ((Some error, cr), w1)"
    and "files w ''token.json'' = None"
  shows "get_google_creds vd vs True w =
           (Inl (FileNotFoundError ''token.json''),
            w1\<lparr>log := log w1 @ [(ERROR, ''Error getting credentials: '' @ str_exn error),
                                  (INFO, ''Retrying to get credentials'')]\<rparr>)"
  using assms try_get_google_creds_raises_files [OF assms(1)]
  by (subst get_google_creds.simps) (simp add: os_remove_def logger_def Let_def)

text \<open>
  The first run of the claim: no token file, and no client-secret file at the
  configured path.
\<close>

theorem get_google_creds_retry_without_token_file_witness:
  "try_get_google_creds failing_vendor default_valves first_run_world =
     ((Some (FileNotFoundError ''credentials.json''), None), first_run_world)
   \<and> files first_run_world ''token.json'' = None
   \<and> get_google_creds failing_vendor default_valves True first_run_world =
       (Inl (FileNotFoundError ''token.json''),
        first_run_world\<lparr>log := [(ERROR, ''Error getting credentials: credentials.json''),
                                 (INFO, ''Retrying to get credentials'')]\<rparr>)"
proof -
  have t: "try_get_google_creds failing_vendor default_valves first_run_world =
     ((Some (FileNotFoundError ''credentials.json''), None), first_run_world)"
    by (simp add: first_run_world_def default_valves_def try_get_google_creds_def
        renew_def consent_flow_def from_client_secrets_file_def)
  have f: "files first_run_world ''token.json'' = None"
    by (simp add: first_run_world_def)
  have l: "log first_run_world = []"
    by (simp add: first_run_world_def)
  show ?thesis
    using get_google_creds_retry_without_token_file [OF t f] t f l by simp
qed

subsection \<open>Gmail: body extraction and headers\<close>

lemma and_then_assoc: "and_then (and_then m f) g = and_then m (\<lambda>x. and_then (f x) g)"
  by (cases m) simp_all

lemma and_then_Inr: "and_then m Inr = m"
  by (cases m) simp_all

lemma scan_parts_find:
  "\<forall>p \<in> set parts. \<exists>t. subscript p ''mimeType'' = Inr t \<Longrightarrow>
   scan_parts sl parts =
     (case find is_text_part parts of
        None \<Rightarrow> Inr None
      | Some part \<Rightarrow>
          and_then (body_data part) (\<lambda>d. and_then (decode_mail_body sl d) (\<lambda>s. Inr (Some s))))"
  by (induction parts) (auto simp add: is_text_part_def)

lemma find_header_find:
  "\<forall>h \<in> set hs. \<exists>n. subscript h ''name'' = Inr n \<Longrightarrow>
   find_header hs name = Inr (find (\<lambda>h. subscript h ''name'' = Inr (PyStr name)) hs)"
  by (induction hs) auto

lemma subscript_Inr_truthy: "subscript h key = Inr v \<Longrightarrow> truthy h"
  by (cases h) (auto split: option.splits)

text \<open>
  Claim C4: for a payload that has a MIME type, and whose parts, when it is
  \<^verbatim>\<open>multipart/alternative\<close> or \<^verbatim>\<open>multipart/mixed\<close>, are a list of parts that each
  have a MIME type, \<^verbatim>\<open>parse_email_body\<close> decodes the body of the first immediate child
  part that is \<^verbatim>\<open>text/html\<close> or \<^verbatim>\<open>text/plain\<close>, and the body of the payload itself
  when there is no such part or the payload is not multipart; where the decoding
  succeeds, the result is the base64-decoded, HTML-escaped text.
\<close>

theorem parse_email_body_first_text_part:
  assumes "subscript payload ''mimeType'' = Inr m"
    and "is_multipart payload \<longrightarrow>
           subscript payload ''parts'' = Inr (PyList parts)
           \<and> (\<forall>p \<in> set parts. \<exists>t. subscript p ''mimeType'' = Inr t)"
  shows "try_parse_email_body sl payload =
           and_then (body_data (spec_body_part payload parts)) (decode_mail_body sl)
         \<and> (\<forall>d bytes. body_data (spec_body_part payload parts) = Inr (PyStr d)
                \<and> b64decode sl d = Inr bytes \<longrightarrow>
              parse_email_body sl payload = Inr (html_escape (utf8_decode_replace sl bytes)))"
proof -
  have eq: "try_parse_email_body sl payload =
      and_then (body_data (spec_body_part payload parts)) (decode_mail_body sl)"
  proof (cases "is_multipart payload")
    case True
    with assms(2) have p: "subscript payload ''parts'' = Inr (PyList parts)"
      and wf: "\<forall>p \<in> set parts. \<exists>t. subscript p ''mimeType'' = Inr t"
      by simp_all
    from True assms(1) have m: "m = PyStr ''multipart/alternative'' \<or> m = PyStr ''multipart/mixed''"
      by (auto simp add: is_multipart_def)
    show ?thesis
      using True m p assms(1)
      by (cases "find is_text_part parts")
        (auto simp add: try_parse_email_body_def spec_body_part_def scan_parts_find [OF wf]
          and_then_assoc and_then_Inr)
  next
    case False
    with assms(1) have m: "\<not> (m = PyStr ''multipart/alternative'' \<or> m = PyStr ''multipart/mixed'')"
      by (auto simp add: is_multipart_def)
    show ?thesis
      using False m assms(1)
      by (simp add: try_parse_email_body_def spec_body_part_def)
  qed
  then show ?thesis
    by (simp add: parse_email_body_def decode_mail_body_def)
qed

text \<open>
  The example of the claim: a \<^verbatim>\<open>multipart/alternative\<close> payload with the parts
  \<^verbatim>\<open>[text/plain, text/html]\<close> yields the content of the plain-text part, here
  \<^verbatim>\<open>a < b\<close>, escaped.
\<close>

theorem parse_email_body_first_text_part_witness:
  "subscript alternative_payload ''mimeType'' = Inr (PyStr ''multipart/alternative'')
   \<and> is_multipart alternative_payload
   \<and> subscript alternative_payload ''parts'' = Inr (PyList [plain_part, html_part])
   \<and> spec_body_part alternative_payload [plain_part, html_part] = plain_part
   \<and> body_data plain_part = Inr (PyStr ''YSA8IGI='')
   \<and> b64decode example_stdlib ''YSA8IGI='' = Inr ''a < b''
   \<and> parse_email_body example_stdlib alternative_payload = Inr ''a &lt; b''"
proof -
  have m: "subscript alternative_payload ''mimeType'' = Inr (PyStr ''multipart/alternative'')"
    by (simp add: alternative_payload_def)
  have mp: "is_multipart alternative_payload"
    by (simp add: is_multipart_def m)
  have ps: "subscript alternative_payload ''parts'' = Inr (PyList [plain_part, html_part])"
    by (simp add: alternative_payload_def)
  have wf: "\<forall>p \<in> set [plain_part, html_part]. \<exists>t. subscript p ''mimeType'' = Inr t"
    by (simp add: plain_part_def html_part_def)
  have sp: "spec_body_part alternative_payload [plain_part, html_part] = plain_part"
    by (simp add: spec_body_part_def mp is_text_part_def plain_part_def)
  have bd: "body_data plain_part = Inr (PyStr ''YSA8IGI='')"
    by (simp add: body_data_def plain_part_def)
  have dec: "b64decode example_stdlib ''YSA8IGI='' = Inr ''a < b''"
    by code_simp
  have esc: "html_escape (utf8_decode_replace example_stdlib ''a < b'') = ''a &lt; b''"
    by code_simp
  from parse_email_body_first_text_part [OF m, of "[plain_part, html_part]" example_stdlib]
    mp ps wf
  have imp: "body_data (spec_body_part alternative_payload [plain_part, html_part]) = Inr (PyStr d)
      \<Longrightarrow> b64decode example_stdlib d = Inr bytes
      \<Longrightarrow> parse_email_body example_stdlib alternative_payload =
            Inr (html_escape (utf8_decode_replace example_stdlib bytes))" for d bytes
    by blast
  have "parse_email_body example_stdlib alternative_payload =
      Inr (html_escape (utf8_decode_replace example_stdlib ''a < b''))"
    by (rule imp [of "''YSA8IGI=''"]) (simp_all only: sp bd dec)
  with esc m mp ps sp bd dec show ?thesis
    by simp
qed

text \<open>
  Claim C5: \<^verbatim>\<open>parse_email_body\<close> never raises. For every payload it returns a string;
  when the extraction raised, that string is one of the three descriptive texts, ending
  in the text of the exception.
\<close>

theorem parse_email_body_never_raises:
  "(\<exists>s. parse_email_body sl payload = Inr s)
   \<and> (\<forall>err. try_parse_email_body sl payload = Inl err \<longrightarrow>
         parse_email_body sl payload \<in>
           {Inr (''Error decoding email body: '' @ str_exn err),
            Inr (''Error parsing email body: '' @ str_exn err),
            Inr (''Error: '' @ str_exn err)})"
  by (auto simp add: parse_email_body_def split: sum.splits exn.splits)

text \<open>
  Bad base64 (data that ends inside a group), a missing field, and a payload that is
  not a dictionary.
\<close>

theorem parse_email_body_never_raises_witness:
  "try_parse_email_body example_stdlib truncated_payload = Inl (ValueError ''Incorrect padding'')
   \<and> parse_email_body example_stdlib truncated_payload =
       Inr ''Error decoding email body: Incorrect padding''
   \<and> try_parse_email_body example_stdlib (PyDict []) = Inl (KeyError ''mimeType'')
   \<and> parse_email_body example_stdlib (PyDict []) = Inr (''Error parsing email body: '' @ str_exn (KeyError ''mimeType''))
   \<and> try_parse_email_body example_stdlib PyNone
       = Inl (TypeError ''NoneType object is not subscriptable'')
   \<and> parse_email_body example_stdlib PyNone
       = Inr ''Error: NoneType object is not subscriptable''"
proof -
  have t1: "try_parse_email_body example_stdlib truncated_payload
      = Inl (ValueError ''Incorrect padding'')"
    by code_simp
  have t2: "try_parse_email_body example_stdlib (PyDict []) = Inl (KeyError ''mimeType'')"
    by (simp add: try_parse_email_body_def)
  have t3: "try_parse_email_body example_stdlib PyNone
      = Inl (TypeError ''NoneType object is not subscriptable'')"
    by (simp add: try_parse_email_body_def)
  from parse_email_body_never_raises [of example_stdlib truncated_payload] t1
  have "parse_email_body example_stdlib truncated_payload \<in>
      {Inr (''Error decoding email body: '' @ str_exn (ValueError ''Incorrect padding'')),
       Inr (''Error parsing email body: '' @ str_exn (ValueError ''Incorrect padding'')),
       Inr (''Error: '' @ str_exn (ValueError ''Incorrect padding''))}"
    by blast
  moreover have "parse_email_body example_stdlib truncated_payload
      \<noteq> Inr (''Error parsing email body: '' @ str_exn (ValueError ''Incorrect padding''))"
    "parse_email_body example_stdlib truncated_payload
      \<noteq> Inr (''Error: '' @ str_exn (ValueError ''Incorrect padding''))"
    by (simp_all add: parse_email_body_def t1)
  ultimately have p1: "parse_email_body example_stdlib truncated_payload =
      Inr ''Error decoding email body: Incorrect padding''"
    by simp
  have p2: "parse_email_body example_stdlib (PyDict []) = Inr (''Error parsing email body: '' @ str_exn (KeyError ''mimeType''))"
    by (simp add: parse_email_body_def t2)
  have p3: "parse_email_body example_stdlib PyNone
      = Inr ''Error: NoneType object is not subscriptable''"
    by (simp add: parse_email_body_def t3)
  from t1 p1 t2 p2 t3 p3 show ?thesis
    by simp
qed

lemma get_header_value_find:
  assumes "\<forall>h \<in> set hs. \<exists>n. subscript h ''name'' = Inr n"
  shows "get_header_value (PyList hs) name =
           (case find (\<lambda>h. subscript h ''name'' = Inr (PyStr name)) hs of
              None \<Rightarrow> Inr (PyStr [])
            | Some h \<Rightarrow> subscript h ''value'')"
proof (cases "find (\<lambda>h. subscript h ''name'' = Inr (PyStr name)) hs")
  case None
  then show ?thesis
    by (simp add: get_header_value_def find_header_find [OF assms])
next
  case (Some h)
  then have "subscript h ''name'' = Inr (PyStr name)" by (auto simp add: find_Some_iff)
  then have "truthy h" by (rule subscript_Inr_truthy)
  with Some show ?thesis
    by (simp add: get_header_value_def find_header_find [OF assms])
qed

lemma get_header_value_field:
  assumes "\<forall>h \<in> set hs. \<exists>n. subscript h ''name'' = Inr n"
    and "\<forall>h \<in> set hs. \<exists>v. subscript h ''value'' = Inr v"
  shows "\<exists>v. get_header_value (PyList hs) name = Inr v \<and> py_str sl v = header_field sl hs name"
proof (cases "find (\<lambda>h. subscript h ''name'' = Inr (PyStr name)) hs")
  case None
  then show ?thesis
    by (simp add: get_header_value_find [OF assms(1)] header_field_def)
next
  case (Some h)
  then have "h \<in> set hs" by (auto simp add: find_Some_iff in_set_conv_nth)
  with assms(2) obtain v where "subscript h ''value'' = Inr v" by blast
  with Some show ?thesis
    by (simp add: get_header_value_find [OF assms(1)] header_field_def)
qed

lemma parse_email_body_returns: "\<exists>s. parse_email_body sl payload = Inr s"
  by (auto simp add: parse_email_body_def split: sum.splits exn.splits)

lemma format_mail_fields:
  assumes "subscript mail ''payload'' = Inr payload"
    and "subscript payload ''headers'' = Inr (PyList hs)"
    and "\<forall>h \<in> set hs. \<exists>n. subscript h ''name'' = Inr n"
    and "\<forall>h \<in> set hs. \<exists>v. subscript h ''value'' = Inr v"
    and "subscript mail ''snippet'' = Inr snippet"
    and "and_then (subscript mail ''labelIds'') (contains_str ''UNREAD'') = Inr unread"
    and "subscript msg ''id'' = Inr msg_id"
  shows "\<exists>email_body. parse_email_body sl payload = Inr email_body
           \<and> format_mail sl msg mail =
               Inr (MAIL_FORMAT (py_str sl msg_id) (header_field sl hs ''Date'')
                      (header_field sl hs ''From'') (header_field sl hs ''Subject'')
                      (py_str sl snippet) (py_str sl (PyBool unread)) email_body)"
proof -
  from parse_email_body_returns obtain email_body
    where b: "parse_email_body sl payload = Inr email_body" by blast
  from get_header_value_field [OF assms(3,4)] obtain d
    where d: "get_header_value (PyList hs) ''Date'' = Inr d"
      "py_str sl d = header_field sl hs ''Date''" by blast
  from get_header_value_field [OF assms(3,4)] obtain f
    where f: "get_header_value (PyList hs) ''From'' = Inr f"
      "py_str sl f = header_field sl hs ''From''" by blast
  from get_header_value_field [OF assms(3,4)] obtain s
    where s: "get_header_value (PyList hs) ''Subject'' = Inr s"
      "py_str sl s = header_field sl hs ''Subject''" by blast
  have "format_mail sl msg mail =
      Inr (MAIL_FORMAT (py_str sl msg_id) (py_str sl d) (py_str sl f) (py_str sl s)
             (py_str sl snippet) (py_str sl (PyBool unread)) email_body)"
    unfolding format_mail_def header_of_def
    by (simp only: assms(1,2,5,6,7) b d(1) f(1) s(1) and_then.simps)
  with b d(2) f(2) s(2) show ?thesis by simp
qed

lemma header_field_absent:
  assumes "\<forall>h \<in> set hs. subscript h ''name'' \<noteq> Inr (PyStr name)"
  shows "header_field sl hs name = []"
proof -
  from assms have "find (\<lambda>h. subscript h ''name'' = Inr (PyStr name)) hs = None"
    by (simp add: find_None_iff)
  then show ?thesis
    by (simp add: header_field_def)
qed

text \<open>
  Claim C7: among headers that each have a name, \<^verbatim>\<open>get_header_value\<close> takes the
  value of the first header whose name is equal to the requested name, character by
  character, and gives the empty string, not an error, when no header has that name.
  So does the record that \<^verbatim>\<open>get_user_emails\<close> makes of a message: for every message
  with a payload that has these headers, each with a value, and with a snippet, label
  ids and an identifier, the \<^verbatim>\<open>date\<close>, \<^verbatim>\<open>from\<close> and \<^verbatim>\<open>subject\<close> fields of the record
  are the values of the first headers named exactly \<^verbatim>\<open>Date\<close>, \<^verbatim>\<open>From\<close> and
  \<^verbatim>\<open>Subject\<close>, and the empty string for each of them that the message does not have.
\<close>

theorem get_header_value_exact_match:
  assumes "\<forall>h \<in> set hs. \<exists>n. subscript h ''name'' = Inr n"
  shows "get_header_value (PyList hs) name =
           (case find (\<lambda>h. subscript h ''name'' = Inr (PyStr name)) hs of
              None \<Rightarrow> Inr (PyStr [])
            | Some h \<Rightarrow> subscript h ''value'')
         \<and> ((\<forall>h \<in> set hs. subscript h ''name'' \<noteq> Inr (PyStr name)) \<longrightarrow>
               get_header_value (PyList hs) name = Inr (PyStr [])
               \<and> header_field sl hs name = [])
         \<and> (subscript mail ''payload'' = Inr payload
              \<and> subscript payload ''headers'' = Inr (PyList hs)
              \<and> (\<forall>h \<in> set hs. \<exists>v. subscript h ''value'' = Inr v)
              \<and> subscript mail ''snippet'' = Inr snippet
              \<and> and_then (subscript mail ''labelIds'') (contains_str ''UNREAD'') = Inr unread
              \<and> subscript msg ''id'' = Inr msg_id \<longrightarrow>
            (\<exists>email_body. parse_email_body sl payload = Inr email_body
               \<and> format_mail sl msg mail =
                   Inr (MAIL_FORMAT (py_str sl msg_id) (header_field sl hs ''Date'')
                          (header_field sl hs ''From'') (header_field sl hs ''Subject'')
                          (py_str sl snippet) (py_str sl (PyBool unread)) email_body)))"
proof -
  let ?P = "\<lambda>h. subscript h ''name'' = Inr (PyStr name)"
  note eq = get_header_value_find [OF assms, of name]
  have absent: "get_header_value (PyList hs) name = Inr (PyStr []) \<and> header_field sl hs name = []"
    if a: "\<forall>h \<in> set hs. \<not> ?P h"
  proof -
    from a have "find ?P hs = None" by (simp add: find_None_iff)
    with eq header_field_absent [OF a] show ?thesis by simp
  qed
  have message: "\<exists>email_body. parse_email_body sl payload = Inr email_body
               \<and> format_mail sl msg mail =
                   Inr (MAIL_FORMAT (py_str sl msg_id) (header_field sl hs ''Date'')
                          (header_field sl hs ''From'') (header_field sl hs ''Subject'')
                          (py_str sl snippet) (py_str sl (PyBool unread)) email_body)"
    if "subscript mail ''payload'' = Inr payload"
      "subscript payload ''headers'' = Inr (PyList hs)"
      "\<forall>h \<in> set hs. \<exists>v. subscript h ''value'' = Inr v"
      "subscript mail ''snippet'' = Inr snippet"
      "and_then (subscript mail ''labelIds'') (contains_str ''UNREAD'') = Inr unread"
      "subscript msg ''id'' = Inr msg_id"
    using format_mail_fields [OF that(1,2) assms that(3,4,5,6)] .
  from eq absent message show ?thesis by blast
qed

text \<open>
  A message with the headers \<^verbatim>\<open>subject\<close> (in lower case) and \<^verbatim>\<open>From\<close>: no header
  is named \<^verbatim>\<open>Subject\<close> or \<^verbatim>\<open>Date\<close>, and the record of the message has empty
  \<^verbatim>\<open>subject\<close> and \<^verbatim>\<open>date\<close> fields.
\<close>

theorem get_header_value_exact_match_witness:
  "map (\<lambda>h. subscript h ''name'') example_headers = [Inr (PyStr ''subject''), Inr (PyStr ''From'')]
   \<and> get_header_value (PyList example_headers) ''Subject'' = Inr (PyStr [])
   \<and> get_header_value (PyList example_headers) ''From'' = Inr (PyStr ''a@b.c'')
   \<and> format_mail example_stdlib (PyDict [(''id'', PyStr ''194d1f624c165d4b'')]) example_mail =
       Inr (MAIL_FORMAT ''194d1f624c165d4b'' [] ''a@b.c'' [] ''a'' ''True'' ''a &lt; b'')"
proof -
  let ?msg = "PyDict [(''id'', PyStr ''194d1f624c165d4b'')]"
  have wf: "\<forall>h \<in> set example_headers. \<exists>n. subscript h ''name'' = Inr n"
    by (simp add: example_headers_def)
  have vals: "\<forall>h \<in> set example_headers. \<exists>v. subscript h ''value'' = Inr v"
    by (simp add: example_headers_def)
  have no_subject: "\<forall>h \<in> set example_headers. subscript h ''name'' \<noteq> Inr (PyStr ''Subject'')"
    by (simp add: example_headers_def)
  have no_date: "\<forall>h \<in> set example_headers. subscript h ''name'' \<noteq> Inr (PyStr ''Date'')"
    by (simp add: example_headers_def)
  have p: "subscript example_mail ''payload'' = Inr alternative_payload"
    by (simp add: example_mail_def)
  have hs: "subscript alternative_payload ''headers'' = Inr (PyList example_headers)"
    by (simp add: alternative_payload_def)
  have sn: "subscript example_mail ''snippet'' = Inr (PyStr ''a'')"
    by (simp add: example_mail_def)
  have un: "and_then (subscript example_mail ''labelIds'') (contains_str ''UNREAD'') = Inr True"
    by (simp add: example_mail_def)
  have i: "subscript ?msg ''id'' = Inr (PyStr ''194d1f624c165d4b'')"
    by simp
  have body: "parse_email_body example_stdlib alternative_payload = Inr ''a &lt; b''"
    by code_simp
  have from_field: "header_field example_stdlib example_headers ''From'' = ''a@b.c''"
    by (simp add: header_field_def example_headers_def)
  note subject = get_header_value_exact_match [OF wf, of "''Subject''" example_stdlib
      example_mail alternative_payload "PyStr ''a''" True ?msg "PyStr ''194d1f624c165d4b''"]
  note date = get_header_value_exact_match [OF wf, of "''Date''" example_stdlib
      example_mail alternative_payload "PyStr ''a''" True ?msg "PyStr ''194d1f624c165d4b''"]
  note sender = get_header_value_exact_match [OF wf, of "''From''" example_stdlib
      example_mail alternative_payload "PyStr ''a''" True ?msg "PyStr ''194d1f624c165d4b''"]
  from subject no_subject
  have s: "get_header_value (PyList example_headers) ''Subject'' = Inr (PyStr [])"
    and sf: "header_field example_stdlib example_headers ''Subject'' = []"
    by blast+
  from date no_date
  have df: "header_field example_stdlib example_headers ''Date'' = []"
    by blast
  from sender
  have f: "get_header_value (PyList example_headers) ''From'' = Inr (PyStr ''a@b.c'')"
    by (simp add: example_headers_def)
  from subject p hs vals sn un i
  obtain email_body where "parse_email_body example_stdlib alternative_payload = Inr email_body"
    and "format_mail example_stdlib ?msg example_mail =
      Inr (MAIL_FORMAT (py_str example_stdlib (PyStr ''194d1f624c165d4b''))
             (header_field example_stdlib example_headers ''Date'')
             (header_field example_stdlib example_headers ''From'')
             (header_field example_stdlib example_headers ''Subject'')
             (py_str example_stdlib (PyStr ''a'')) (py_str example_stdlib (PyBool True))
             email_body)"
    by blast
  with body sf df from_field
  have m: "format_mail example_stdlib ?msg example_mail =
      Inr (MAIL_FORMAT ''194d1f624c165d4b'' [] ''a@b.c'' [] ''a'' ''True'' ''a &lt; b'')"
    by simp
  have names: "map (\<lambda>h. subscript h ''name'') example_headers
      = [Inr (PyStr ''subject''), Inr (PyStr ''From'')]"
    by (simp add: example_headers_def)
  from names s f m show ?thesis
    by simp
qed

subsection \<open>The calendar aggregator\<close>

lemma format_range_upt:
  "k \<le> length evs \<Longrightarrow> i \<le> k \<Longrightarrow>
   format_range evs [i ..< k] acc = Inr (acc @ concat (map format_event (take (k - i) (drop i evs))))"
proof (induction "k - i" arbitrary: i acc)
  case 0
  then show ?case by simp
next
  case (Suc d)
  then have lt: "i < k" and d: "d = k - Suc i" by simp_all
  from lt Suc.prems have il: "i < length evs" by simp
  have "format_range evs [i ..< k] acc = format_range evs [Suc i ..< k] (acc @ format_event (evs ! i))"
    using lt il by (simp add: upt_conv_Cons)
  also have "\<dots> = Inr ((acc @ format_event (evs ! i)) @
      concat (map format_event (take (k - Suc i) (drop (Suc i) evs))))"
    using Suc.hyps(1) [OF d] Suc.prems lt by simp
  finally have "format_range evs [i ..< k] acc = Inr ((acc @ format_event (evs ! i)) @
      concat (map format_event (take (k - Suc i) (drop (Suc i) evs))))" .
  moreover have "take (k - i) (drop i evs) = evs ! i # take (k - Suc i) (drop (Suc i) evs)"
    using lt il by (metis Cons_nth_drop_Suc Suc_diff_Suc take_Suc_Cons)
  ultimately show ?case by simp
qed

lemma format_range_short:
  "length evs < k \<Longrightarrow> i < k \<Longrightarrow>
   format_range evs [i ..< k] acc = Inl (IndexError ''list index out of range'')"
proof (induction "k - i" arbitrary: i acc)
  case 0
  then show ?case by simp
next
  case (Suc d)
  show ?case
  proof (cases "i < length evs")
    case True
    with Suc.prems have "Suc i < k" by simp
    moreover from Suc.hyps(2) have "d = k - Suc i" by simp
    ultimately have "format_range evs [Suc i ..< k] (acc @ format_event (evs ! i))
        = Inl (IndexError ''list index out of range'')"
      using Suc.hyps(1) Suc.prems(1) by blast
    with True Suc.prems show ?thesis by (simp add: upt_conv_Cons)
  next
    case False
    with Suc.prems show ?thesis by (simp add: upt_conv_Cons)
  qed
qed

lemma collect_ids_Some:
  "map calendar_id cals = map Some ids \<Longrightarrow> collect_ids cals = Inr ids"
  by (induction cals arbitrary: ids) (auto simp add: Cons_eq_map_conv)

lemma to_entries_append:
  "to_entries (xs @ ys) =
     and_then (to_entries xs) (\<lambda>a. and_then (to_entries ys) (\<lambda>b. Inr (a @ b)))"
proof (induction xs)
  case Nil
  show ?case by (cases "to_entries ys") simp_all
next
  case (Cons x xs)
  then show ?case
    by (cases "to_entry x"; cases "to_entries xs"; cases "to_entries ys") simp_all
qed

lemma to_entry_complete:
  "complete_event ev \<Longrightarrow> to_entry ev = Inr (calendar_event ev) \<and> start (calendar_event ev) \<noteq> None"
  by (auto simp add: complete_event_def to_entry_def calendar_event_def split: option.splits)

lemma to_entries_complete:
  "\<forall>ev \<in> set evs. complete_event ev \<Longrightarrow> to_entries evs = Inr (map calendar_event evs)"
  by (induction evs) (simp_all add: to_entry_complete)

lemma sort_by_start_complete:
  assumes "\<forall>ev \<in> set evs. complete_event ev"
  shows "sort_by_start (map calendar_event evs) = Inr (sort_key start_key (map calendar_event evs))"
proof -
  have "start (calendar_event ev) \<noteq> None" if "ev \<in> set evs" for ev
    using that assms to_entry_complete by blast
  then show ?thesis
    by (auto simp add: sort_by_start_def)
qed

lemma to_entry_KeyError: "to_entry ev = Inl e \<Longrightarrow> \<exists>k. e = KeyError k"
  by (auto simp add: to_entry_def split: option.splits)

lemma to_entries_KeyError: "to_entries evs = Inl e \<Longrightarrow> \<exists>k. e = KeyError k"
proof (induction evs)
  case Nil
  then show ?case by simp
next
  case (Cons ev evs)
  then show ?case
    by (cases "to_entry ev"; cases "to_entries evs") (auto dest: to_entry_KeyError)
qed

lemma to_entries_length: "to_entries evs = Inr es \<Longrightarrow> length es = length evs"
proof (induction evs arbitrary: es)
  case Nil
  then show ?case by simp
next
  case (Cons ev evs)
  then show ?case
    by (cases "to_entry ev"; cases "to_entries evs") auto
qed

lemma fetch_all_answers:
  assumes "events_answers vd ids n t (calls w) = map Inr answers"
  shows "fst (fetch_all vd ids n t acc w) =
           and_then (to_entries (concat (map items_of answers))) (\<lambda>es. Inr (acc @ es))
         \<and> (\<forall>es. to_entries (concat (map items_of answers)) = Inr es \<longrightarrow>
              calls (snd (fetch_all vd ids n t acc w)) =
                calls w @ map (\<lambda>c. EventsList c n t) ids)"
  using assms
proof (induction ids arbitrary: answers acc w)
  case Nil
  then show ?case by (simp add: io_lift_def)
next
  case (Cons c ids)
  from Cons.prems obtain r rest where a: "answers = r # rest"
    and r: "events_list vd (calls w) c n t = Inr r"
    and rest: "events_answers vd ids n t (calls w @ [EventsList c n t]) = map Inr rest"
    by (auto simp add: Cons_eq_map_conv)
  let ?w = "called (EventsList c n t) w"
  have g: "get_cal_evts vd c n t w = (to_entries (items_of r), ?w)"
    by (simp add: get_cal_evts_def io_bind_def vendor_call_def io_lift_def r items_of_def)
  show ?case
  proof (cases "to_entries (items_of r)")
    case (Inl e)
    then show ?thesis
      by (simp add: io_bind_def g a to_entries_append)
  next
    case (Inr es1)
    have cw: "calls ?w = calls w @ [EventsList c n t]"
      by (simp add: called_def)
    from Cons.IH [of ?w rest "acc @ es1"] rest cw
    have ih: "fst (fetch_all vd ids n t (acc @ es1) ?w) =
           and_then (to_entries (concat (map items_of rest))) (\<lambda>es. Inr ((acc @ es1) @ es))
         \<and> (\<forall>es. to_entries (concat (map items_of rest)) = Inr es \<longrightarrow>
              calls (snd (fetch_all vd ids n t (acc @ es1) ?w)) =
                calls ?w @ map (\<lambda>c. EventsList c n t) ids)"
      by simp
    show ?thesis
      using ih Inr cw
      by (cases "to_entries (concat (map items_of rest))")
        (simp_all add: io_bind_def g a to_entries_append)
  qed
qed

lemma try_get_user_events_fetched:
  assumes "get_google_creds vd vs True w0 = (Inr cr, w1)"
    and "build vd (calls w1) ''calendar'' ''v3'' cr = None"
    and "from_time = utcnow_isoformat vd (calls w1 @ [Build ''calendar'' ''v3'' cr]) @ ''Z''"
    and "calendarList_list vd (calls w1 @ [Build ''calendar'' ''v3'' cr, UtcNow]) = Inr cl"
    and "map calendar_id (case calendar_items cl of None \<Rightarrow> [] | Some cs \<Rightarrow> cs) = map Some ids"
    and "events_answers vd ids n from_time
           (calls w1 @ [Build ''calendar'' ''v3'' cr, UtcNow, CalendarListList]) = map Inr answers"
  shows "fst (try_get_user_events sl vd vs n w0) =
           and_then (to_entries (concat (map items_of answers))) (\<lambda>event_list.
           and_then (sort_by_start event_list) (\<lambda>sorted_list.
           format_range sorted_list (py_range n) []))
         \<and> (\<forall>es. to_entries (concat (map items_of answers)) = Inr es \<longrightarrow>
              calls (snd (try_get_user_events sl vd vs n w0)) =
                calls w1 @ [Build ''calendar'' ''v3'' cr, UtcNow, CalendarListList]
                  @ map (\<lambda>c. EventsList c n from_time) ids)"
proof -
  let ?wa = "called UtcNow (called (Build ''calendar'' ''v3'' cr) w1)"
  let ?wb = "logger DEBUG (''Got following calendars '' @ py_repr sl (PyList (map PyStr ids)))
               (called CalendarListList ?wa)"
  have ca: "calls ?wa = calls w1 @ [Build ''calendar'' ''v3'' cr, UtcNow]"
    by (simp add: called_def)
  have cb: "calls ?wb = calls w1 @ [Build ''calendar'' ''v3'' cr, UtcNow, CalendarListList]"
    by (simp add: called_def logger_def)
  have ids: "get_calendar_ids sl vd ?wa = (Inr ids, ?wb)"
    using assms(4) collect_ids_Some [OF assms(5)]
    by (simp add: get_calendar_ids_def io_bind_def vendor_call_def io_lift_def io_log_def ca)
  from fetch_all_answers [of vd ids n from_time ?wb answers "[]"] assms(6) cb
  have f: "fst (fetch_all vd ids n from_time [] ?wb) =
           and_then (to_entries (concat (map items_of answers))) (\<lambda>es. Inr es)"
    and fc: "\<forall>es. to_entries (concat (map items_of answers)) = Inr es \<longrightarrow>
              calls (snd (fetch_all vd ids n from_time [] ?wb)) =
                calls ?wb @ map (\<lambda>c. EventsList c n from_time) ids"
    by simp_all
  have t: "try_get_user_events sl vd vs n w0 =
      io_bind (fetch_all vd ids n from_time []) (\<lambda>event_list.
        io_lift (and_then (sort_by_start event_list) (\<lambda>sorted_list.
                 format_range sorted_list (py_range n) []))) ?wb"
    using assms(1,2) ids
    by (simp add: try_get_user_events_def io_bind_def build_service_def get_current_time_def
        assms(3) called_def)
  show ?thesis
  proof (cases "fetch_all vd ids n from_time [] ?wb")
    case (Pair r w3)
    with f fc cb show ?thesis
      by (cases r; cases "to_entries (concat (map items_of answers))")
        (simp_all add: t io_bind_def io_lift_def)
  qed
qed

lemma cached_creds:
  assumes "files w0 ''token.json'' = Some content"
    and "from_authorized_user_info vd content = Inr c"
    and "valid c"
  shows "get_google_creds vd vs True w0 = (Inr (Some c), w0)"
  using assms
  by (subst get_google_creds.simps)
    (simp add: try_get_google_creds_def from_authorized_user_file_def)

lemma get_user_events_outcome:
  assumes "ee = Some emit" and "\<forall>st. emit st = None"
    and "n = (if count' = - 1 then default_calendar_entries vs else count')"
    and "try_get_user_events sl vd vs n (events_entry_world vd n w) = (r, w2)"
  shows "fst (get_user_events sl vd vs count' ee w) =
           (case r of
              Inr out \<Rightarrow>
                Inr (MAIN_FORMAT (events_description n (utcnow_isoformat vd (calls w) @ ''Z''))
                       (''<events>'' @ out @ ''</events>''))
            | Inl e \<Rightarrow>
                if is_HttpError e
                then Inr (MAIN_FORMAT (events_description n (utcnow_isoformat vd (calls w) @ ''Z''))
                            (''<events>Error fetching calendar data: '' @ str_exn e @ ''</events>''))
                else Inl e)
         \<and> calls (snd (get_user_events sl vd vs count' ee w)) = calls w2"
proof -
  have w0: "events_entry_world vd n w =
      logger DEBUG (''The requested '' @ str_int n @
           '' upcoming events from the user's calendar. Today is '' @
           (utcnow_isoformat vd (calls w) @ ''Z''))
        (called UtcNow (w\<lparr>emitted := emitted w @
           [\<lparr>status_description = ''Fetching user calendar entries...'', status_done = False\<rparr>]\<rparr>))"
    by (simp add: events_entry_world_def events_description_def fetching_events_def)
  show ?thesis
    using assms(4) unfolding w0
    by (cases r)
      (simp_all add: get_user_events_def Let_def assms(1,2) assms(3) [symmetric] io_bind_def
        await_emit_def get_current_time_def io_log_def except_HttpError_def io_lift_def
        events_description_def logger_def called_def)
qed

lemma get_user_events_run:
  assumes "ee = Some emit" and "\<forall>st. emit st = None"
    and "n = (if count' = - 1 then default_calendar_entries vs else count')"
    and "get_google_creds vd vs True (events_entry_world vd n w) = (Inr cr, w1)"
    and "build vd (calls w1) ''calendar'' ''v3'' cr = None"
    and "from_time = utcnow_isoformat vd (calls w1 @ [Build ''calendar'' ''v3'' cr]) @ ''Z''"
    and "calendarList_list vd (calls w1 @ [Build ''calendar'' ''v3'' cr, UtcNow]) = Inr cl"
    and "map calendar_id (case calendar_items cl of None \<Rightarrow> [] | Some cs \<Rightarrow> cs) = map Some ids"
    and "events_answers vd ids n from_time
           (calls w1 @ [Build ''calendar'' ''v3'' cr, UtcNow, CalendarListList]) = map Inr answers"
  shows "fst (get_user_events sl vd vs count' ee w) =
           (case and_then (to_entries (concat (map items_of answers))) (\<lambda>event_list.
                 and_then (sort_by_start event_list) (\<lambda>sorted_list.
                 format_range sorted_list (py_range n) [])) of
              Inr out \<Rightarrow>
                Inr (MAIN_FORMAT (events_description n (utcnow_isoformat vd (calls w) @ ''Z''))
                       (''<events>'' @ out @ ''</events>''))
            | Inl e \<Rightarrow>
                if is_HttpError e
                then Inr (MAIN_FORMAT (events_description n (utcnow_isoformat vd (calls w) @ ''Z''))
                            (''<events>Error fetching calendar data: '' @ str_exn e @ ''</events>''))
                else Inl e)
         \<and> (\<forall>es. to_entries (concat (map items_of answers)) = Inr es \<longrightarrow>
              calls (snd (get_user_events sl vd vs count' ee w)) =
                calls w1 @ [Build ''calendar'' ''v3'' cr, UtcNow, CalendarListList]
                  @ map (\<lambda>c. EventsList c n from_time) ids)"
proof -
  let ?t = "try_get_user_events sl vd vs n (events_entry_world vd n w)"
  have p: "?t = (fst ?t, snd ?t)" by simp
  from get_user_events_outcome [OF assms(1,2,3) p]
    try_get_user_events_fetched [OF assms(4,5,6,7,8,9), of sl]
  show ?thesis by simp
qed

lemma example_creds_cached:
  assumes "files w0 ''token.json'' = Some ''{}''"
  shows "get_google_creds example_vendor default_valves True w0 = (Inr (Some example_creds), w0)"
  using assms
  by (subst get_google_creds.simps)
    (simp add: try_get_google_creds_def from_authorized_user_file_def example_vendor_def
      example_creds_def)

text \<open>
  Claim C2, as stated, fails: it does not hold for every set of calendars. With the
  default count of ten and the two calendars of the example, which hold three events,
  \<^verbatim>\<open>get_user_events\<close> returns no events at all: it raises \<^verbatim>\<open>IndexError\<close>.
\<close>

theorem get_user_events_default_count_too_few:
  "fst (get_user_events example_stdlib example_vendor default_valves (- 1) example_emitter
          authorised_world) = Inl (IndexError ''list index out of range'')
   \<and> length (concat (map example_entries [''A'', ''B''])) = 3"
proof -
  let ?w0 = "events_entry_world example_vendor 10 authorised_world"
  let ?answers = "[\<lparr>event_items = Some (example_events ''A'')\<rparr>,
                   \<lparr>event_items = Some (example_events ''B'')\<rparr>]"
  have e: "example_emitter = Some (\<lambda>st. None)" "\<forall>st. (\<lambda>st::status. None::exn option) st = None"
    by (simp_all add: example_emitter_def)
  have n: "(10::int) = (if (- 1::int) = - 1 then default_calendar_entries default_valves else - 1)"
    by (simp add: default_valves_def)
  have "files ?w0 ''token.json'' = Some ''{}''"
    by (simp add: events_entry_world_def logger_def called_def authorised_world_def)
  then have creds: "get_google_creds example_vendor default_valves True ?w0
      = (Inr (Some example_creds), ?w0)"
    by (rule example_creds_cached)
  have service: "build example_vendor (calls ?w0) ''calendar'' ''v3'' (Some example_creds) = None"
    by (simp add: example_vendor_def)
  have cl: "calendarList_list example_vendor
        (calls ?w0 @ [Build ''calendar'' ''v3'' (Some example_creds), UtcNow]) =
      Inr \<lparr>calendar_items = Some [\<lparr>calendar_id = Some ''A''\<rparr>, \<lparr>calendar_id = Some ''B''\<rparr>]\<rparr>"
    by (simp add: example_vendor_def)
  have ids: "map calendar_id (case calendar_items \<lparr>calendar_items =
      Some [\<lparr>calendar_id = Some ''A''\<rparr>, \<lparr>calendar_id = Some ''B''\<rparr>]\<rparr> of
        None \<Rightarrow> [] | Some cs \<Rightarrow> cs) = map Some [''A'', ''B'']"
    by simp
  have ev: "events_answers example_vendor [''A'', ''B''] 10 from_time h = map Inr ?answers"
    for from_time h
    by (simp add: example_vendor_def example_events_def)
  have en: "to_entries (concat (map items_of ?answers)) =
      Inr (concat (map example_entries [''A'', ''B'']))"
    by (simp add: items_of_def example_events_def example_entries_def event_at_def to_entry_def
        organizer_A_def organizer_B_def)
  have len: "length (concat (map example_entries [''A'', ''B''])) = 3"
    by (simp add: example_entries_def)
  have st: "sort_by_start (concat (map example_entries [''A'', ''B''])) =
      Inr (sort_key start_key (concat (map example_entries [''A'', ''B''])))"
    by (simp add: sort_by_start_def example_entries_def)
  have "length (sort_key start_key (concat (map example_entries [''A'', ''B'']))) < 10"
    using len by simp
  from format_range_short [OF this, of 0 "[]"]
  have f: "format_range (sort_key start_key (concat (map example_entries [''A'', ''B''])))
      (py_range 10) [] = Inl (IndexError ''list index out of range'')"
    by (simp add: py_range_def)
  from get_user_events_run [OF e n creds service refl cl ids ev, of example_stdlib]
  have "fst (get_user_events example_stdlib example_vendor default_valves (- 1) example_emitter
          authorised_world) = Inl (IndexError ''list index out of range'')"
    by (simp only: en st f and_then.simps sum.case is_HttpError.simps if_False)
  with len show ?thesis by simp
qed

text \<open>
  Claim C2, amended: let the emitter accept the statuses, the credentials be acquired and
  the service be built; let the calendar list be answered, with calendars that each have
  an id, and let each request for at most \<open>n\<close> events of one of these calendars be
  answered; let every event in the answers have a start with a \<^verbatim>\<open>dateTime\<close> or a
  \<^verbatim>\<open>date\<close>, a summary and an organizer with an email, and let the answers hold at
  least \<open>n\<close> events in total. Then \<^verbatim>\<open>get_user_events\<close> asks every calendar once,
  each time with the cap \<open>n\<close> and the time it has just read from the clock, and
  returns, in the envelope, the records of the first \<open>n\<close> of the events of all the
  answers together (nothing removed), sorted ascending by their start strings. The start
  of an event is its \<^verbatim>\<open>dateTime\<close> if it has one and its \<^verbatim>\<open>date\<close> otherwise, and its
  calendar label is the display name of the organizer if there is one and the
  organizer's email otherwise. Here \<open>n\<close> is the requested count, or the configured
  default when that is \<open>-1\<close>.
\<close>

theorem get_user_events_first_count:
  assumes "ee = Some emit" and "\<forall>st. emit st = None"
    and "n = (if count' = - 1 then default_calendar_entries vs else count')"
    and "get_google_creds vd vs True (events_entry_world vd n w) = (Inr cr, w1)"
    and "build vd (calls w1) ''calendar'' ''v3'' cr = None"
    and "from_time = utcnow_isoformat vd (calls w1 @ [Build ''calendar'' ''v3'' cr]) @ ''Z''"
    and "calendarList_list vd (calls w1 @ [Build ''calendar'' ''v3'' cr, UtcNow]) = Inr cl"
    and "map calendar_id (case calendar_items cl of None \<Rightarrow> [] | Some cs \<Rightarrow> cs) = map Some ids"
    and "events_answers vd ids n from_time
           (calls w1 @ [Build ''calendar'' ''v3'' cr, UtcNow, CalendarListList]) = map Inr answers"
    and "fetched = concat (map items_of answers)"
    and "\<forall>ev \<in> set fetched. complete_event ev"
    and "n \<le> int (length fetched)"
  shows "fst (get_user_events sl vd vs count' ee w) =
           Inr (MAIN_FORMAT (events_description n (utcnow_isoformat vd (calls w) @ ''Z''))
                  (''<events>'' @
                   concat (map format_event
                     (take (nat n) (sort_key start_key (map calendar_event fetched)))) @
                   ''</events>''))
         \<and> calls (snd (get_user_events sl vd vs count' ee w)) =
             calls w1 @ [Build ''calendar'' ''v3'' cr, UtcNow, CalendarListList]
               @ map (\<lambda>c. EventsList c n from_time) ids
         \<and> sorted (map start_key (sort_key start_key (map calendar_event fetched)))
         \<and> mset (sort_key start_key (map calendar_event fetched)) = mset (map calendar_event fetched)"
proof -
  let ?merged = "map calendar_event fetched"
  have en: "to_entries (concat (map items_of answers)) = Inr ?merged"
    using to_entries_complete [OF assms(11)] by (simp add: assms(10))
  have s: "sort_by_start ?merged = Inr (sort_key start_key ?merged)"
    using assms(11) by (rule sort_by_start_complete)
  have "nat n \<le> length (sort_key start_key ?merged)"
    using assms(12) by simp
  from format_range_upt [OF this, of 0 "[]"]
  have f: "format_range (sort_key start_key ?merged) (py_range n) [] =
      Inr (concat (map format_event (take (nat n) (sort_key start_key ?merged))))"
    by (simp add: py_range_def)
  from get_user_events_run [OF assms(1,2,3,4,5,6,7,8,9), of sl]
  show ?thesis
    by (simp add: en s f)
qed

text \<open>
  The calendar merge of the specification, with a clock that moves on: three events are
  requested, calendar \<^verbatim>\<open>A\<close> holds events at 12:00 and 14:00 and calendar \<^verbatim>\<open>B\<close> one
  at 13:00; the records come in the order 12:00, 13:00, 14:00, each with the label of
  its calendar.
\<close>

theorem get_user_events_first_count_witness:
  "fst (get_user_events example_stdlib ticking_vendor default_valves 3 example_emitter
          authorised_world) =
     Inr (MAIN_FORMAT (events_description 3 ''2025-05-28T11:00:00Z'')
            (''<events>'' @
             CALENDAR_FORMAT ''2025-05-28T12:00:00Z'' ''one'' ''a@example.com'' @
             CALENDAR_FORMAT ''2025-05-28T13:00:00Z'' ''two'' ''Team B'' @
             CALENDAR_FORMAT ''2025-05-28T14:00:00Z'' ''three'' ''a@example.com'' @
             ''</events>''))
   \<and> calls (snd (get_user_events example_stdlib ticking_vendor default_valves 3 example_emitter
                   authorised_world)) =
       [UtcNow, Build ''calendar'' ''v3'' (Some example_creds), UtcNow, CalendarListList,
        EventsList ''A'' 3 ''2025-05-28T11:00:01Z'', EventsList ''B'' 3 ''2025-05-28T11:00:01Z'']"
proof -
  let ?w0 = "events_entry_world ticking_vendor 3 authorised_world"
  let ?answers = "[\<lparr>event_items = Some (example_events ''A'')\<rparr>,
                   \<lparr>event_items = Some (example_events ''B'')\<rparr>]"
  let ?fetched = "example_events ''A'' @ example_events ''B''"
  have e: "example_emitter = Some (\<lambda>st. None)" "\<forall>st. (\<lambda>st::status. None::exn option) st = None"
    by (simp_all add: example_emitter_def)
  have n: "(3::int) = (if (3::int) = - 1 then default_calendar_entries default_valves else 3)"
    by simp
  have cw: "calls ?w0 = [UtcNow]"
    by (simp add: events_entry_world_def logger_def called_def authorised_world_def)
  have clock: "utcnow_isoformat ticking_vendor =
      (\<lambda>h. if UtcNow \<in> set h then ''2025-05-28T11:00:01'' else ''2025-05-28T11:00:00'')"
    by (simp add: ticking_vendor_def)
  have now: "utcnow_isoformat ticking_vendor (calls authorised_world) @ ''Z'' = ''2025-05-28T11:00:00Z''"
    by (simp add: clock authorised_world_def)
  have "files ?w0 ''token.json'' = Some ''{}''"
    by (simp add: events_entry_world_def logger_def called_def authorised_world_def)
  moreover have "from_authorized_user_info ticking_vendor ''{}'' = Inr example_creds"
    by (simp add: ticking_vendor_def example_vendor_def)
  moreover have "valid example_creds"
    by (simp add: example_creds_def)
  ultimately have creds: "get_google_creds ticking_vendor default_valves True ?w0
      = (Inr (Some example_creds), ?w0)"
    by (rule cached_creds)
  have service: "build ticking_vendor (calls ?w0) ''calendar'' ''v3'' (Some example_creds) = None"
    by (simp add: ticking_vendor_def example_vendor_def)
  have ft: "''2025-05-28T11:00:01Z'' =
      utcnow_isoformat ticking_vendor (calls ?w0 @ [Build ''calendar'' ''v3'' (Some example_creds)])
        @ ''Z''"
    by (simp add: clock cw)
  have cl: "calendarList_list ticking_vendor
        (calls ?w0 @ [Build ''calendar'' ''v3'' (Some example_creds), UtcNow]) =
      Inr \<lparr>calendar_items = Some [\<lparr>calendar_id = Some ''A''\<rparr>, \<lparr>calendar_id = Some ''B''\<rparr>]\<rparr>"
    by (simp add: ticking_vendor_def example_vendor_def)
  have ids: "map calendar_id (case calendar_items \<lparr>calendar_items =
      Some [\<lparr>calendar_id = Some ''A''\<rparr>, \<lparr>calendar_id = Some ''B''\<rparr>]\<rparr> of
        None \<Rightarrow> [] | Some cs \<Rightarrow> cs) = map Some [''A'', ''B'']"
    by simp
  have ev: "events_answers ticking_vendor [''A'', ''B''] 3 ''2025-05-28T11:00:01Z''
        (calls ?w0 @ [Build ''calendar'' ''v3'' (Some example_creds), UtcNow, CalendarListList])
      = map Inr ?answers"
    by (simp add: ticking_vendor_def example_vendor_def example_events_def)
  have fetched: "?fetched = concat (map items_of ?answers)"
    by (simp add: items_of_def)
  have complete: "\<forall>ev \<in> set ?fetched. complete_event ev"
    by (simp add: example_events_def event_at_def complete_event_def organizer_A_def
        organizer_B_def)
  have len: "(3::int) \<le> int (length ?fetched)"
    by (simp add: example_events_def)
  have out: "concat (map format_event (take (nat 3) (sort_key start_key
        (map calendar_event ?fetched))))
      = CALENDAR_FORMAT ''2025-05-28T12:00:00Z'' ''one'' ''a@example.com'' @
        CALENDAR_FORMAT ''2025-05-28T13:00:00Z'' ''two'' ''Team B'' @
        CALENDAR_FORMAT ''2025-05-28T14:00:00Z'' ''three'' ''a@example.com''"
    by code_simp
  note th = get_user_events_first_count [OF e n creds service ft cl ids ev fetched complete len,
      where sl = example_stdlib]
  from th have r: "fst (get_user_events example_stdlib ticking_vendor default_valves 3
        example_emitter authorised_world) =
      Inr (MAIN_FORMAT (events_description 3
               (utcnow_isoformat ticking_vendor (calls authorised_world) @ ''Z''))
             (''<events>'' @
              concat (map format_event (take (nat 3) (sort_key start_key
                (map calendar_event ?fetched)))) @
              ''</events>''))"
    by (rule conjunct1)
  from th have c: "calls (snd (get_user_events example_stdlib ticking_vendor default_valves 3
        example_emitter authorised_world)) =
      calls ?w0 @ [Build ''calendar'' ''v3'' (Some example_creds), UtcNow, CalendarListList]
        @ map (\<lambda>c. EventsList c 3 ''2025-05-28T11:00:01Z'') [''A'', ''B'']"
    by (rule conjunct1 [OF conjunct2])
  show ?thesis
    using r [unfolded out now] c cw by simp
qed

text \<open>
  Claim C3, as stated, fails: fewer events than requested do not always end in
  \<^verbatim>\<open>IndexError\<close>. Two events are requested of a single calendar whose only event has
  no title; \<^verbatim>\<open>event["summary"]\<close> raises \<^verbatim>\<open>KeyError\<close> before the list is indexed.
\<close>

theorem get_user_events_untitled_event:
  "fst (get_user_events example_stdlib untitled_vendor default_valves 2 example_emitter
          authorised_world) = Inl (KeyError ''summary'')
   \<and> (\<forall>h. calendarList_list untitled_vendor h =
            Inr \<lparr>calendar_items = Some [\<lparr>calendar_id = Some ''A''\<rparr>]\<rparr>)
   \<and> (\<forall>h t. events_list untitled_vendor h ''A'' 2 t = Inr \<lparr>event_items = Some [untitled_event]\<rparr>)
   \<and> length [untitled_event] < 2"
proof -
  let ?w0 = "events_entry_world untitled_vendor 2 authorised_world"
  have e: "example_emitter = Some (\<lambda>st. None)" "\<forall>st. (\<lambda>st::status. None::exn option) st = None"
    by (simp_all add: example_emitter_def)
  have n: "(2::int) = (if (2::int) = - 1 then default_calendar_entries default_valves else 2)"
    by simp
  have "files ?w0 ''token.json'' = Some ''{}''"
    by (simp add: events_entry_world_def logger_def called_def authorised_world_def)
  moreover have "from_authorized_user_info untitled_vendor ''{}'' = Inr example_creds"
    by (simp add: untitled_vendor_def example_vendor_def)
  moreover have "valid example_creds"
    by (simp add: example_creds_def)
  ultimately have creds: "get_google_creds untitled_vendor default_valves True ?w0
      = (Inr (Some example_creds), ?w0)"
    by (rule cached_creds)
  have service: "build untitled_vendor (calls ?w0) ''calendar'' ''v3'' (Some example_creds) = None"
    by (simp add: untitled_vendor_def example_vendor_def)
  have cl: "calendarList_list untitled_vendor h =
      Inr \<lparr>calendar_items = Some [\<lparr>calendar_id = Some ''A''\<rparr>]\<rparr>" for h
    by (simp add: untitled_vendor_def)
  have ids: "map calendar_id (case calendar_items \<lparr>calendar_items =
      Some [\<lparr>calendar_id = Some ''A''\<rparr>]\<rparr> of None \<Rightarrow> [] | Some cs \<Rightarrow> cs) = map Some [''A'']"
    by simp
  have el: "events_list untitled_vendor h ''A'' 2 t = Inr \<lparr>event_items = Some [untitled_event]\<rparr>"
    for h t
    by (simp add: untitled_vendor_def)
  have ev: "events_answers untitled_vendor [''A''] 2 from_time h =
      map Inr [\<lparr>event_items = Some [untitled_event]\<rparr>]" for from_time h
    by (simp add: el)
  have en: "to_entries (concat (map items_of [\<lparr>event_items = Some [untitled_event]\<rparr>])) =
      Inl (KeyError ''summary'')"
    by (simp add: items_of_def untitled_event_def to_entry_def)
  from get_user_events_run [OF e n creds service refl cl ids ev, of example_stdlib]
  have "fst (get_user_events example_stdlib untitled_vendor default_valves 2 example_emitter
          authorised_world) = Inl (KeyError ''summary'')"
    by (simp only: en and_then.simps sum.case is_HttpError.simps if_False)
  with cl el show ?thesis by simp
qed

text \<open>
  Claim C3, amended: under the same conditions on the emitter, the credentials, the
  service and the answers of the calendars, if the answers hold fewer events than the
  requested count \<open>n\<close>, \<^verbatim>\<open>get_user_events\<close> returns neither a partial nor an empty
  list: it raises an exception to its caller. The exception is \<^verbatim>\<open>IndexError\<close> when
  every event in the answers has a start with a \<^verbatim>\<open>dateTime\<close> or a \<^verbatim>\<open>date\<close>, a
  summary and an organizer with an email; otherwise it is \<^verbatim>\<open>IndexError\<close>, the
  \<^verbatim>\<open>KeyError\<close> of a missing field, or the \<^verbatim>\<open>TypeError\<close> of comparing a missing
  start.
\<close>

theorem get_user_events_too_few:
  assumes "ee = Some emit" and "\<forall>st. emit st = None"
    and "n = (if count' = - 1 then default_calendar_entries vs else count')"
    and "get_google_creds vd vs True (events_entry_world vd n w) = (Inr cr, w1)"
    and "build vd (calls w1) ''calendar'' ''v3'' cr = None"
    and "from_time = utcnow_isoformat vd (calls w1 @ [Build ''calendar'' ''v3'' cr]) @ ''Z''"
    and "calendarList_list vd (calls w1 @ [Build ''calendar'' ''v3'' cr, UtcNow]) = Inr cl"
    and "map calendar_id (case calendar_items cl of None \<Rightarrow> [] | Some cs \<Rightarrow> cs) = map Some ids"
    and "events_answers vd ids n from_time
           (calls w1 @ [Build ''calendar'' ''v3'' cr, UtcNow, CalendarListList]) = map Inr answers"
    and "fetched = concat (map items_of answers)"
    and "int (length fetched) < n"
  shows "(\<exists>e. fst (get_user_events sl vd vs count' ee w) = Inl e
            \<and> (e = IndexError ''list index out of range''
                 \<or> (\<exists>k. e = KeyError k)
                 \<or> e = TypeError ''< not supported between instances of NoneType and str''))
         \<and> ((\<forall>ev \<in> set fetched. complete_event ev) \<longrightarrow>
              fst (get_user_events sl vd vs count' ee w) =
                Inl (IndexError ''list index out of range''))"
proof -
  note run = get_user_events_run [OF assms(1,2,3,4,5,6,7,8,9), of sl, THEN conjunct1]
  have short: "format_range (sort_key start_key es) (py_range n) [] =
      Inl (IndexError ''list index out of range'')" if "length es = length fetched" for es
  proof -
    have "length (sort_key start_key es) < nat n" and "0 < nat n"
      using assms(11) that by simp_all
    from format_range_short [OF this, of "[]"] show ?thesis
      by (simp add: py_range_def)
  qed
  have general: "\<exists>e. fst (get_user_events sl vd vs count' ee w) = Inl e
            \<and> (e = IndexError ''list index out of range''
                 \<or> (\<exists>k. e = KeyError k)
                 \<or> e = TypeError ''< not supported between instances of NoneType and str'')"
  proof (cases "to_entries (concat (map items_of answers))")
    case (Inl e)
    from to_entries_KeyError [OF this] obtain k where "e = KeyError k" by blast
    with Inl run show ?thesis by simp
  next
    case (Inr es)
    from to_entries_length [OF this] have l: "length es = length fetched"
      by (simp add: assms(10))
    show ?thesis
      using run Inr short [OF l]
      by (simp add: sort_by_start_def)
  qed
  have complete: "fst (get_user_events sl vd vs count' ee w) =
      Inl (IndexError ''list index out of range'')" if c: "\<forall>ev \<in> set fetched. complete_event ev"
  proof -
    let ?merged = "map calendar_event fetched"
    have en: "to_entries (concat (map items_of answers)) = Inr ?merged"
      using to_entries_complete [OF c] by (simp add: assms(10))
    have s: "sort_by_start ?merged = Inr (sort_key start_key ?merged)"
      using c by (rule sort_by_start_complete)
    have l: "length ?merged = length fetched" by simp
    from run show ?thesis
      by (simp add: en s short [OF l])
  qed
  from general complete show ?thesis by blast
qed

text \<open>Four events are requested of the two calendars, which hold three.\<close>

theorem get_user_events_too_few_witness:
  "int (length (example_events ''A'' @ example_events ''B'')) < 4
   \<and> fst (get_user_events example_stdlib ticking_vendor default_valves 4 example_emitter
            authorised_world) = Inl (IndexError ''list index out of range'')"
proof -
  let ?w0 = "events_entry_world ticking_vendor 4 authorised_world"
  let ?answers = "[\<lparr>event_items = Some (example_events ''A'')\<rparr>,
                   \<lparr>event_items = Some (example_events ''B'')\<rparr>]"
  let ?fetched = "example_events ''A'' @ example_events ''B''"
  have e: "example_emitter = Some (\<lambda>st. None)" "\<forall>st. (\<lambda>st::status. None::exn option) st = None"
    by (simp_all add: example_emitter_def)
  have n: "(4::int) = (if (4::int) = - 1 then default_calendar_entries default_valves else 4)"
    by simp
  have "files ?w0 ''token.json'' = Some ''{}''"
    by (simp add: events_entry_world_def logger_def called_def authorised_world_def)
  moreover have "from_authorized_user_info ticking_vendor ''{}'' = Inr example_creds"
    by (simp add: ticking_vendor_def example_vendor_def)
  moreover have "valid example_creds"
    by (simp add: example_creds_def)
  ultimately have creds: "get_google_creds ticking_vendor default_valves True ?w0
      = (Inr (Some example_creds), ?w0)"
    by (rule cached_creds)
  have service: "build ticking_vendor (calls ?w0) ''calendar'' ''v3'' (Some example_creds) = None"
    by (simp add: ticking_vendor_def example_vendor_def)
  have cl: "calendarList_list ticking_vendor
        (calls ?w0 @ [Build ''calendar'' ''v3'' (Some example_creds), UtcNow]) =
      Inr \<lparr>calendar_items = Some [\<lparr>calendar_id = Some ''A''\<rparr>, \<lparr>calendar_id = Some ''B''\<rparr>]\<rparr>"
    by (simp add: ticking_vendor_def example_vendor_def)
  have ids: "map calendar_id (case calendar_items \<lparr>calendar_items =
      Some [\<lparr>calendar_id = Some ''A''\<rparr>, \<lparr>calendar_id = Some ''B''\<rparr>]\<rparr> of
        None \<Rightarrow> [] | Some cs \<Rightarrow> cs) = map Some [''A'', ''B'']"
    by simp
  have ev: "events_answers ticking_vendor [''A'', ''B''] 4 from_time h = map Inr ?answers"
    for from_time h
    by (simp add: ticking_vendor_def example_vendor_def example_events_def)
  have fetched: "?fetched = concat (map items_of ?answers)"
    by (simp add: items_of_def)
  have complete: "\<forall>ev \<in> set ?fetched. complete_event ev"
    by (simp add: example_events_def event_at_def complete_event_def organizer_A_def
        organizer_B_def)
  have len: "int (length ?fetched) < 4"
    by (simp add: example_events_def)
  from get_user_events_too_few [OF e n creds service refl cl ids ev fetched len,
      where sl = example_stdlib] complete
  have "fst (get_user_events example_stdlib ticking_vendor default_valves 4 example_emitter
            authorised_world) = Inl (IndexError ''list index out of range'')"
    by blast
  with len show ?thesis
    by simp
qed

subsection \<open>The output of the public operations\<close>

lemma format_range_records:
  "format_range evs idx acc = Inr out \<Longrightarrow>
   \<exists>recs. out = acc @ concat recs \<and> (\<forall>r \<in> set recs. \<exists>s t c. r = CALENDAR_FORMAT s t c)"
proof (induction idx arbitrary: acc)
  case Nil
  then have "out = acc @ concat []" by simp
  then show ?case by (metis empty_iff list.set(1))
next
  case (Cons i idx)
  then have il: "i < length evs"
    and r: "format_range evs idx (acc @ format_event (evs ! i)) = Inr out"
    by (simp_all split: if_splits)
  from Cons.IH [OF r] obtain recs where o: "out = (acc @ format_event (evs ! i)) @ concat recs"
    and a: "\<forall>r \<in> set recs. \<exists>s t c. r = CALENDAR_FORMAT s t c" by blast
  have "out = acc @ concat (format_event (evs ! i) # recs)" using o by simp
  moreover have "\<forall>r \<in> set (format_event (evs ! i) # recs). \<exists>s t c. r = CALENDAR_FORMAT s t c"
    using a by (auto simp add: format_event_def)
  ultimately show ?case by blast
qed

lemma try_get_user_events_records:
  assumes "try_get_user_events sl vd vs n w = (Inr out, w')"
  shows "event_records out"
proof -
  from assms obtain evs where "and_then (sort_by_start evs)
      (\<lambda>sorted_list. format_range sorted_list (py_range n) []) = Inr out"
    by (auto simp add: try_get_user_events_def io_bind_def io_lift_def
        split: prod.splits sum.splits)
  then obtain sl' where "format_range sl' (py_range n) [] = Inr out"
    by (cases "sort_by_start evs") auto
  from format_range_records [OF this] show ?thesis
    by (simp add: event_records_def)
qed

lemma and_then_eq_Inr: "and_then m f = Inr y \<longleftrightarrow> (\<exists>x. m = Inr x \<and> f x = Inr y)"
  by (cases m) simp_all

lemma io_bind_eq_Inr:
  "io_bind m f w = (Inr y, w') \<longleftrightarrow> (\<exists>x w1. m w = (Inr x, w1) \<and> f x w1 = (Inr y, w'))"
  by (auto simp add: io_bind_def split: prod.splits sum.splits)

lemma format_mail_record:
  "format_mail sl msg mail = Inr t \<Longrightarrow> \<exists>i d f s n u b. t = MAIL_FORMAT i d f s n u b"
  by (clarsimp simp add: format_mail_def and_then_eq_Inr) blast

lemma mail_loop_records:
  "mail_loop sl vd msgs acc w = (Inr out, w') \<Longrightarrow>
   \<exists>recs. out = acc @ concat recs \<and> (\<forall>r \<in> set recs. \<exists>i d f s n u b. r = MAIL_FORMAT i d f s n u b)"
proof (induction msgs arbitrary: acc w)
  case Nil
  then have "out = acc @ concat []" by (simp add: io_lift_def)
  then show ?case by (metis empty_iff list.set(1))
next
  case (Cons msg msgs)
  from Cons.prems obtain t w1 mail where fm: "format_mail sl msg mail = Inr t"
    and r: "mail_loop sl vd msgs (acc @ t) w1 = (Inr out, w')"
    by (auto simp add: io_bind_eq_Inr io_lift_def)
  from Cons.IH [OF r] obtain recs where o: "out = (acc @ t) @ concat recs"
    and a: "\<forall>r \<in> set recs. \<exists>i d f s n u b. r = MAIL_FORMAT i d f s n u b" by blast
  have "out = acc @ concat (t # recs)" using o by simp
  moreover have "\<forall>r \<in> set (t # recs). \<exists>i d f s n u b. r = MAIL_FORMAT i d f s n u b"
    using a format_mail_record [OF fm] by auto
  ultimately show ?case by blast
qed

lemma try_get_user_emails_records:
  assumes "try_get_user_emails sl vd vs n label_id w = (Inr out, w')"
  shows "out = ''No messages found.'' \<or> email_records out"
proof -
  from assms have "out = ''No messages found.''
      \<or> (\<exists>msgs w1. mail_loop sl vd msgs [] w1 = (Inr out, w'))"
    by (auto simp add: try_get_user_emails_def io_bind_eq_Inr io_lift_def split: if_splits)
  then show ?thesis
    using mail_loop_records [of sl vd _ "[]" _ out w'] by (auto simp add: email_records_def)
qed

lemma except_HttpError_eq_Inr:
  "except_HttpError m handler w = (Inr x, w') \<longleftrightarrow>
     m w = (Inr x, w') \<or> (\<exists>e. m w = (Inl e, w') \<and> is_HttpError e \<and> x = handler e)"
  by (auto simp add: except_HttpError_def split: prod.splits sum.splits if_splits)

lemma io_lift_eq_Inr: "io_lift r w = (Inr y, w') \<longleftrightarrow> r = Inr y \<and> w' = w"
  by (auto simp add: io_lift_def)

lemma get_user_emails_returns:
  assumes "fst (get_user_emails sl vd vs count' label_id ee w) = Inr s"
  shows "\<exists>d out. s = MAIN_FORMAT d (''<emails>'' @ out @ ''</emails>'')
           \<and> (out = ''No messages found.'' \<or> email_records out
                \<or> (\<exists>m. out = ''An error occurred: '' @ m))"
proof -
  from assms obtain w' where "get_user_emails sl vd vs count' label_id ee w = (Inr s, w')"
    by (cases "get_user_emails sl vd vs count' label_id ee w") simp
  then obtain n d out w1 w2 where s: "s = MAIN_FORMAT d (''<emails>'' @ out @ ''</emails>'')"
    and t: "except_HttpError (try_get_user_emails sl vd vs n label_id)
              (\<lambda>error. ''An error occurred: '' @ str_exn error) w1 = (Inr out, w2)"
    by (auto simp add: get_user_emails_def Let_def io_bind_eq_Inr io_lift_eq_Inr)
  from t have "out = ''No messages found.'' \<or> email_records out
      \<or> (\<exists>m. out = ''An error occurred: '' @ m)"
    using try_get_user_emails_records [of sl vd vs n label_id w1 out w2]
    by (auto simp add: except_HttpError_eq_Inr)
  with s show ?thesis by blast
qed

lemma get_user_events_returns:
  assumes "fst (get_user_events sl vd vs count' ee w) = Inr s"
  shows "\<exists>d out. s = MAIN_FORMAT d (''<events>'' @ out @ ''</events>'')
           \<and> (event_records out \<or> (\<exists>m. out = ''Error fetching calendar data: '' @ m))"
proof -
  from assms obtain w' where "get_user_events sl vd vs count' ee w = (Inr s, w')"
    by (cases "get_user_events sl vd vs count' ee w") simp
  then obtain n d out w1 w2 where s: "s = MAIN_FORMAT d (''<events>'' @ out @ ''</events>'')"
    and t: "except_HttpError (try_get_user_events sl vd vs n)
              (\<lambda>error. ''Error fetching calendar data: '' @ str_exn error) w1 = (Inr out, w2)"
    by (auto simp add: get_user_events_def Let_def io_bind_eq_Inr io_lift_eq_Inr)
  from t have "event_records out \<or> (\<exists>m. out = ''Error fetching calendar data: '' @ m)"
    using try_get_user_events_records [of sl vd vs n w1 out w2]
    by (auto simp add: except_HttpError_eq_Inr)
  with s show ?thesis by blast
qed

lemma get_email_content_returns:
  assumes "fst (get_email_content sl vd vs message_id ee w) = Inr s"
  shows "\<exists>d body. s = MAIN_FORMAT d (''<![CDATA['' @ body @ '']]>'')"
proof -
  from assms obtain w' where "get_email_content sl vd vs message_id ee w = (Inr s, w')"
    by (cases "get_email_content sl vd vs message_id ee w") simp
  then show ?thesis
    by (auto simp add: get_email_content_def Let_def io_bind_eq_Inr io_lift_eq_Inr)
qed

lemma gmail_create_draft_returns:
  assumes "fst (gmail_create_draft sl vd vs to subject body ee w) = Inr s"
  shows "s = ''Draft message created!'' \<or> (\<exists>m. s = ''An error occurred: '' @ m)"
proof -
  from assms obtain w' where "gmail_create_draft sl vd vs to subject body ee w = (Inr s, w')"
    by (cases "gmail_create_draft sl vd vs to subject body ee w") simp
  then obtain w1 w2 where
    t: "except_HttpError (try_gmail_create_draft sl vd vs to subject body)
          (\<lambda>error. ''An error occurred: '' @ str_exn error) w1 = (Inr s, w2)"
    by (auto simp add: gmail_create_draft_def io_bind_eq_Inr io_lift_eq_Inr)
  then show ?thesis
    by (auto simp add: except_HttpError_eq_Inr try_gmail_create_draft_def Let_def
        io_bind_eq_Inr io_lift_eq_Inr)
qed

lemma get_user_emails_outcome:
  assumes "ee = Some emit" and "\<forall>st. emit st = None"
    and "n = (if count' = - 1 then default_email_entries vs else count')"
    and "try_get_user_emails sl vd vs n label_id (emails_entry_world vd n label_id w) = (r, w2)"
  shows "fst (get_user_emails sl vd vs count' label_id ee w) =
           (case r of
              Inr out \<Rightarrow>
                Inr (MAIN_FORMAT
                       (emails_description n label_id (utcnow_isoformat vd (calls w) @ ''Z''))
                       (''<emails>'' @ out @ ''</emails>''))
            | Inl e \<Rightarrow>
                if is_HttpError e
                then Inr (MAIN_FORMAT
                            (emails_description n label_id (utcnow_isoformat vd (calls w) @ ''Z''))
                            (''<emails>An error occurred: '' @ str_exn e @ ''</emails>''))
                else Inl e)"
proof -
  have w0: "emails_entry_world vd n label_id w =
      logger DEBUG (''The requested  '' @ str_int n @
           '' emails from the user's inbox that have the label '' @ label_id @
           ''. Today is '' @ (utcnow_isoformat vd (calls w) @ ''Z''))
        (called UtcNow (w\<lparr>emitted := emitted w @
           [\<lparr>status_description = ''Fetching user emails...'', status_done = False\<rparr>]\<rparr>))"
    by (simp add: emails_entry_world_def emails_description_def)
  show ?thesis
    using assms(4) unfolding w0
    by (cases r)
      (simp_all add: get_user_emails_def Let_def assms(1,2) assms(3) [symmetric] io_bind_def
        await_emit_def get_current_time_def io_log_def except_HttpError_def io_lift_def
        emails_description_def logger_def called_def)
qed

lemma get_email_content_outcome:
  assumes "ee = Some emit" and "\<forall>st. emit st = None"
    and "try_get_email_content sl vd vs message_id (content_entry_world vd message_id w) = (r, w2)"
  shows "fst (get_email_content sl vd vs message_id ee w) =
           (case r of
              Inr body \<Rightarrow>
                Inr (MAIN_FORMAT
                       (content_description message_id (utcnow_isoformat vd (calls w) @ ''Z''))
                       (''<![CDATA['' @ body @ '']]>''))
            | Inl e \<Rightarrow>
                if is_HttpError e
                then Inr (MAIN_FORMAT
                            (content_description message_id (utcnow_isoformat vd (calls w) @ ''Z''))
                            (''<![CDATA[An error occurred: '' @ str_exn e @ '']]>''))
                else Inl e)"
proof -
  have w0: "content_entry_world vd message_id w =
      logger DEBUG (''Contents of the email message for message_id: '' @ message_id @
           ''. Today is '' @ (utcnow_isoformat vd (calls w) @ ''Z''))
        (called UtcNow (w\<lparr>emitted := emitted w @
           [\<lparr>status_description = ''Fetching email content...'', status_done = False\<rparr>]\<rparr>))"
    by (simp add: content_entry_world_def content_description_def)
  show ?thesis
    using assms(3) unfolding w0
    by (cases r)
      (simp_all add: get_email_content_def Let_def assms(1,2) io_bind_def
        await_emit_def get_current_time_def io_log_def except_HttpError_def io_lift_def
        content_description_def logger_def called_def)
qed

text \<open>
  Claim C6, as stated, fails for \<^verbatim>\<open>gmail_create_draft\<close>: with a valid cached token
  and a working service it returns the bare text \<^verbatim>\<open>Draft message created!\<close>, which
  does not begin as the envelope does.
\<close>

theorem gmail_create_draft_bare_text:
  "fst (gmail_create_draft example_stdlib example_vendor default_valves
          ''a@b.c'' ''Hi'' ''hello'' example_emitter authorised_world)
     = Inr ''Draft message created!''
   \<and> \<not> enveloped ''Draft message created!''"
proof -
  have "get_google_creds example_vendor default_valves True
      (authorised_world\<lparr>log := [(DEBUG, ''Creating draft message...'')],
         emitted := [\<lparr>status_description = ''Creating email draft...'', status_done = False\<rparr>]\<rparr>)
    = (Inr (Some example_creds),
       authorised_world\<lparr>log := [(DEBUG, ''Creating draft message...'')],
         emitted := [\<lparr>status_description = ''Creating email draft...'', status_done = False\<rparr>]\<rparr>)"
    by (rule example_creds_cached) (simp add: authorised_world_def)
  then have "fst (gmail_create_draft example_stdlib example_vendor default_valves
          ''a@b.c'' ''Hi'' ''hello'' example_emitter authorised_world)
     = Inr ''Draft message created!''"
    by (simp add: gmail_create_draft_def try_gmail_create_draft_def io_bind_def io_log_def
        await_emit_def example_emitter_def except_HttpError_def logger_def Let_def
        build_service_def io_lift_def vendor_call_def called_def authorised_world_def
        example_vendor_def example_stdlib_def)
  then show ?thesis
    by (simp add: enveloped_def MAIN_FORMAT_def)
qed

text \<open>
  Claim C6, amended: \<^verbatim>\<open>get_user_emails\<close>, \<^verbatim>\<open>get_email_content\<close> and
  \<^verbatim>\<open>get_user_events\<close>, whenever they return, return the envelope
  \<^verbatim>\<open><interpreter_output>\<close> around \<^verbatim>\<open><description>\<close> and \<^verbatim>\<open><output>\<close>. The output
  of the two list operations is \<^verbatim>\<open><emails>\<close> or \<^verbatim>\<open><events>\<close> around repeated
  \<^verbatim>\<open><email>\<close> or \<^verbatim>\<open><event>\<close> records (or the text that no messages were found, or
  an error text); the output of \<^verbatim>\<open>get_email_content\<close> is a CDATA section. When the
  emitter accepts the statuses and the \<^verbatim>\<open>try\<close> block raises \<^verbatim>\<open>HttpError\<close>, the
  operation returns the text of the error inside that envelope. \<^verbatim>\<open>gmail_create_draft\<close>
  returns a bare text, \<^verbatim>\<open>Draft message created!\<close> or an error text, in no envelope.
\<close>

theorem public_operations_output:
  assumes "n_mail = (if count' = - 1 then default_email_entries vs else count')"
    and "n_cal = (if count' = - 1 then default_calendar_entries vs else count')"
    and "now = utcnow_isoformat vd (calls w) @ ''Z''"
  shows "(\<forall>s. fst (get_user_emails sl vd vs count' label_id ee w) = Inr s \<longrightarrow>
            (\<exists>d out. s = MAIN_FORMAT d (''<emails>'' @ out @ ''</emails>'')
               \<and> (out = ''No messages found.'' \<or> email_records out
                    \<or> (\<exists>m. out = ''An error occurred: '' @ m))))
       \<and> (\<forall>s. fst (get_email_content sl vd vs message_id ee w) = Inr s \<longrightarrow>
            (\<exists>d body. s = MAIN_FORMAT d (''<![CDATA['' @ body @ '']]>'')))
       \<and> (\<forall>s. fst (get_user_events sl vd vs count' ee w) = Inr s \<longrightarrow>
            (\<exists>d out. s = MAIN_FORMAT d (''<events>'' @ out @ ''</events>'')
               \<and> (event_records out \<or> (\<exists>m. out = ''Error fetching calendar data: '' @ m))))
       \<and> (\<forall>s. fst (gmail_create_draft sl vd vs to subject body ee w) = Inr s \<longrightarrow>
            s = ''Draft message created!'' \<or> (\<exists>m. s = ''An error occurred: '' @ m))
       \<and> (\<forall>emit m w2. ee = Some emit \<and> (\<forall>st. emit st = None)
              \<and> try_get_user_emails sl vd vs n_mail label_id
                   (emails_entry_world vd n_mail label_id w) = (Inl (HttpError m), w2) \<longrightarrow>
            fst (get_user_emails sl vd vs count' label_id ee w) =
              Inr (MAIN_FORMAT (emails_description n_mail label_id now)
                     (''<emails>An error occurred: '' @ m @ ''</emails>'')))
       \<and> (\<forall>emit m w2. ee = Some emit \<and> (\<forall>st. emit st = None)
              \<and> try_get_email_content sl vd vs message_id
                   (content_entry_world vd message_id w) = (Inl (HttpError m), w2) \<longrightarrow>
            fst (get_email_content sl vd vs message_id ee w) =
              Inr (MAIN_FORMAT (content_description message_id now)
                     (''<![CDATA[An error occurred: '' @ m @ '']]>'')))
       \<and> (\<forall>emit m w2. ee = Some emit \<and> (\<forall>st. emit st = None)
              \<and> try_get_user_events sl vd vs n_cal (events_entry_world vd n_cal w)
                   = (Inl (HttpError m), w2) \<longrightarrow>
            fst (get_user_events sl vd vs count' ee w) =
              Inr (MAIN_FORMAT (events_description n_cal now)
                     (''<events>Error fetching calendar data: '' @ m @ ''</events>'')))"
proof -
  have a: "\<forall>s. fst (get_user_emails sl vd vs count' label_id ee w) = Inr s \<longrightarrow>
            (\<exists>d out. s = MAIN_FORMAT d (''<emails>'' @ out @ ''</emails>'')
               \<and> (out = ''No messages found.'' \<or> email_records out
                    \<or> (\<exists>m. out = ''An error occurred: '' @ m)))"
    using get_user_emails_returns by blast
  have b: "\<forall>s. fst (get_email_content sl vd vs message_id ee w) = Inr s \<longrightarrow>
            (\<exists>d body. s = MAIN_FORMAT d (''<![CDATA['' @ body @ '']]>''))"
    using get_email_content_returns by blast
  have c: "\<forall>s. fst (get_user_events sl vd vs count' ee w) = Inr s \<longrightarrow>
            (\<exists>d out. s = MAIN_FORMAT d (''<events>'' @ out @ ''</events>'')
               \<and> (event_records out \<or> (\<exists>m. out = ''Error fetching calendar data: '' @ m)))"
    using get_user_events_returns by blast
  have d: "\<forall>s. fst (gmail_create_draft sl vd vs to subject body ee w) = Inr s \<longrightarrow>
            s = ''Draft message created!'' \<or> (\<exists>m. s = ''An error occurred: '' @ m)"
    using gmail_create_draft_returns by blast
  have e: "fst (get_user_emails sl vd vs count' label_id ee w) =
              Inr (MAIN_FORMAT (emails_description n_mail label_id now)
                     (''<emails>An error occurred: '' @ m @ ''</emails>''))"
    if "ee = Some emit" "\<forall>st. emit st = None"
      "try_get_user_emails sl vd vs n_mail label_id
         (emails_entry_world vd n_mail label_id w) = (Inl (HttpError m), w2)" for emit m w2
    using get_user_emails_outcome [OF that(1,2) assms(1) that(3)] by (simp add: assms(3))
  have f: "fst (get_email_content sl vd vs message_id ee w) =
              Inr (MAIN_FORMAT (content_description message_id now)
                     (''<![CDATA[An error occurred: '' @ m @ '']]>''))"
    if "ee = Some emit" "\<forall>st. emit st = None"
      "try_get_email_content sl vd vs message_id
         (content_entry_world vd message_id w) = (Inl (HttpError m), w2)" for emit m w2
    using get_email_content_outcome [OF that(1,2,3)] by (simp add: assms(3))
  have g: "fst (get_user_events sl vd vs count' ee w) =
              Inr (MAIN_FORMAT (events_description n_cal now)
                     (''<events>Error fetching calendar data: '' @ m @ ''</events>''))"
    if "ee = Some emit" "\<forall>st. emit st = None"
      "try_get_user_events sl vd vs n_cal (events_entry_world vd n_cal w)
         = (Inl (HttpError m), w2)" for emit m w2
    using get_user_events_outcome [OF that(1,2) assms(2) that(3)] by (simp add: assms(3))
  from a b c d e f g show ?thesis
    by blast
qed

lemma unavailable_creds_cached:
  assumes "files w0 ''token.json'' = Some ''{}''"
  shows "get_google_creds unavailable_vendor default_valves True w0 = (Inr (Some example_creds), w0)"
  using assms
  by (subst get_google_creds.simps)
    (simp add: try_get_google_creds_def from_authorized_user_file_def unavailable_vendor_def
      example_vendor_def example_creds_def)

text \<open>
  Gmail and Calendar out of service: the three reading operations return the text of
  the \<^verbatim>\<open>HttpError\<close> in the envelope.
\<close>

theorem public_operations_output_witness:
  "fst (get_user_emails example_stdlib unavailable_vendor default_valves 2 ''INBOX''
          example_emitter authorised_world) =
     Inr (MAIN_FORMAT (emails_description 2 ''INBOX'' ''2025-05-28T11:00:00Z'')
            ''<emails>An error occurred: HttpError 503</emails>'')
   \<and> fst (get_email_content example_stdlib unavailable_vendor default_valves ''194d1f624c165d4b''
          example_emitter authorised_world) =
     Inr (MAIN_FORMAT (content_description ''194d1f624c165d4b'' ''2025-05-28T11:00:00Z'')
            ''<![CDATA[An error occurred: HttpError 503]]>'')
   \<and> fst (get_user_events example_stdlib unavailable_vendor default_valves 2
          example_emitter authorised_world) =
     Inr (MAIN_FORMAT (events_description 2 ''2025-05-28T11:00:00Z'')
            ''<events>Error fetching calendar data: HttpError 503</events>'')"
proof -
  let ?sl = example_stdlib and ?vd = unavailable_vendor and ?vs = default_valves
  let ?w = authorised_world
  have e: "example_emitter = Some (\<lambda>st. None) \<and> (\<forall>st. (\<lambda>st::status. None::exn option) st = None)"
    by (simp add: example_emitter_def)
  have n1: "(2::int) = (if (2::int) = - 1 then default_email_entries ?vs else 2)"
    and n2: "(2::int) = (if (2::int) = - 1 then default_calendar_entries ?vs else 2)"
    by simp_all
  have now: "''2025-05-28T11:00:00Z'' = utcnow_isoformat ?vd (calls ?w) @ ''Z''"
    by (simp add: unavailable_vendor_def example_vendor_def)
  note th = public_operations_output [OF n1 n2 now, where sl = ?sl and ee = example_emitter]
  have sel: "build ?vd = (\<lambda>h name version c. None)"
    "messages_list ?vd = (\<lambda>h n l. Inl (HttpError ''HttpError 503''))"
    "messages_get ?vd = (\<lambda>h i. Inl (HttpError ''HttpError 503''))"
    "calendarList_list ?vd = (\<lambda>h. Inl (HttpError ''HttpError 503''))"
    "utcnow_isoformat ?vd = (\<lambda>h. ''2025-05-28T11:00:00'')"
    by (simp_all add: unavailable_vendor_def example_vendor_def)
  have f1: "files (emails_entry_world ?vd 2 ''INBOX'' ?w) ''token.json'' = Some ''{}''"
    by (simp add: emails_entry_world_def logger_def called_def authorised_world_def)
  have f2: "files (content_entry_world ?vd ''194d1f624c165d4b'' ?w) ''token.json'' = Some ''{}''"
    by (simp add: content_entry_world_def logger_def called_def authorised_world_def)
  have f3: "files (events_entry_world ?vd 2 ?w) ''token.json'' = Some ''{}''"
    by (simp add: events_entry_world_def logger_def called_def authorised_world_def)
  have "\<exists>w2. try_get_user_emails ?sl ?vd ?vs 2 ''INBOX'' (emails_entry_world ?vd 2 ''INBOX'' ?w)
      = (Inl (HttpError ''HttpError 503''), w2)"
    by (simp add: try_get_user_emails_def io_bind_def unavailable_creds_cached [OF f1]
        build_service_def vendor_call_def sel)
  with th e have r1: "fst (get_user_emails ?sl ?vd ?vs 2 ''INBOX'' example_emitter ?w) =
      Inr (MAIN_FORMAT (emails_description 2 ''INBOX'' ''2025-05-28T11:00:00Z'')
             (''<emails>An error occurred: '' @ ''HttpError 503'' @ ''</emails>''))"
    by blast
  have "\<exists>w2. try_get_email_content ?sl ?vd ?vs ''194d1f624c165d4b''
        (content_entry_world ?vd ''194d1f624c165d4b'' ?w)
      = (Inl (HttpError ''HttpError 503''), w2)"
    by (simp add: try_get_email_content_def io_bind_def unavailable_creds_cached [OF f2]
        build_service_def vendor_call_def sel)
  with th e have r2: "fst (get_email_content ?sl ?vd ?vs ''194d1f624c165d4b'' example_emitter ?w) =
      Inr (MAIN_FORMAT (content_description ''194d1f624c165d4b'' ''2025-05-28T11:00:00Z'')
             (''<![CDATA[An error occurred: '' @ ''HttpError 503'' @ '']]>''))"
    by blast
  have "\<exists>w2. try_get_user_events ?sl ?vd ?vs 2 (events_entry_world ?vd 2 ?w)
      = (Inl (HttpError ''HttpError 503''), w2)"
    by (simp add: try_get_user_events_def io_bind_def unavailable_creds_cached [OF f3]
        build_service_def get_current_time_def get_calendar_ids_def vendor_call_def sel)
  with th e have r3: "fst (get_user_events ?sl ?vd ?vs 2 example_emitter ?w) =
      Inr (MAIN_FORMAT (events_description 2 ''2025-05-28T11:00:00Z'')
             (''<events>Error fetching calendar data: '' @ ''HttpError 503'' @ ''</events>''))"
    by blast
  from r1 r2 r3 show ?thesis
    by simp
qed

text \<open>
  Claim C10: every public operation awaits \<^verbatim>\<open>__event_emitter__\<close> before it does
  anything else than choose the count or write a log line. With the default
  \<^verbatim>\<open>__event_emitter__=None\<close> each of them raises \<^verbatim>\<open>TypeError\<close>; no call to the clock, to
  the credential flow, to Gmail or to Calendar has been made, no file is touched, and
  nothing is returned.
\<close>

theorem public_operations_without_emitter:
  "get_user_emails sl vd vs count' label_id None w =
     (Inl (TypeError ''NoneType object is not callable''), w)
   \<and> get_email_content sl vd vs message_id None w =
     (Inl (TypeError ''NoneType object is not callable''), w)
   \<and> gmail_create_draft sl vd vs to subject body None w =
     (Inl (TypeError ''NoneType object is not callable''),
      w\<lparr>log := log w @ [(DEBUG, ''Creating draft message...'')]\<rparr>)
   \<and> get_user_events sl vd vs count' None w =
     (Inl (TypeError ''NoneType object is not callable''), w)"
  by (simp add: get_user_emails_def get_email_content_def gmail_create_draft_def
      get_user_events_def Let_def io_bind_def await_emit_def io_log_def logger_def)

text \<open>
  What \<^verbatim>\<open>gmail_create_draft\<close> sends: once the credentials are acquired and the service is
  built, its only request is \<^verbatim>\<open>drafts().create\<close>, with the base64url encoding of the
  serialised message as the raw message. Nothing is sent.
\<close>

lemma gmail_create_draft_submits_draft:
  assumes "ee = Some emit" and "\<forall>st. emit st = None"
    and "get_google_creds vd vs True
           (w\<lparr>log := log w @ [(DEBUG, ''Creating draft message...'')],
              emitted := emitted w @
                [\<lparr>status_description = ''Creating email draft...'', status_done = False\<rparr>]\<rparr>)
         = (Inr cr, w1)"
    and "build vd (calls w1) ''gmail'' ''v1'' cr = None"
    and "message_as_bytes sl body to subject = Inr bytes"
  shows "calls (snd (gmail_create_draft sl vd vs to subject body ee w)) =
           calls w1 @ [Build ''gmail'' ''v1'' cr, DraftsCreate (urlsafe_b64encode sl bytes)]"
  using assms(3,4,5)
  by (cases "drafts_create vd (calls w1 @ [Build ''gmail'' ''v1'' cr]) (urlsafe_b64encode sl bytes)")
    (simp_all add: gmail_create_draft_def try_gmail_create_draft_def assms(1,2) io_bind_def
      io_log_def await_emit_def except_HttpError_def logger_def Let_def build_service_def
      io_lift_def vendor_call_def called_def)

end
